theory Spec2Isabelle
  imports Complex_Main "HOL-Library.AList"
begin

section \<open>JavaScript values\<close>

text \<open>
  The module (\<^verbatim>\<open>src/index.js\<close>) reads a JSON document delivered by the HTTP client and
  publishes strings, numbers and booleans to its host. Values are modelled by the type
  \<open>json\<close>. Numbers are exact reals: the rounding of IEEE-754 doubles is not modelled, and
  neither are JavaScript's implicit coercions. Where the source would coerce a value that
  is not a number to a number, or would print a number that is not an integer below
  \<open>10^21\<close> in magnitude, the model stops with the outcome \<open>Unmodelled\<close>. The outcome
  \<open>TypeError\<close> is the exception JavaScript raises on reading a property of \<^verbatim>\<open>undefined\<close>
  or \<^verbatim>\<open>null\<close>.
\<close>

datatype json =
    JUndef
  | JNull
  | JBool bool
  | JNum real
  | JStr string
  | JArr "json list"
  | JObj "(string \<times> json) list"

datatype js_error = TypeError | Unmodelled

definition thenE :: "'e + 'a \<Rightarrow> ('a \<Rightarrow> 'e + 'b) \<Rightarrow> 'e + 'b" where
  "thenE m f = (case m of Inl e \<Rightarrow> Inl e | Inr x \<Rightarrow> f x)"

text \<open>\<^verbatim>\<open>o[k]\<close> for a property name \<open>k\<close>. Properties inherited from the built-in
  prototypes (such as \<^verbatim>\<open>length\<close>) are not modelled.\<close>

fun js_get :: "json \<Rightarrow> string \<Rightarrow> js_error + json" where
  "js_get JUndef k = Inl TypeError"
| "js_get JNull k = Inl TypeError"
| "js_get (JObj kvs) k = Inr (case map_of kvs k of Some v \<Rightarrow> v | None \<Rightarrow> JUndef)"
| "js_get v k = Inr JUndef"

text \<open>\<^verbatim>\<open>o[0]\<close>.\<close>

fun js_first :: "json \<Rightarrow> js_error + json" where
  "js_first JUndef = Inl TypeError"
| "js_first JNull = Inl TypeError"
| "js_first (JArr xs) = Inr (case xs of [] \<Rightarrow> JUndef | x # _ \<Rightarrow> x)"
| "js_first (JObj kvs) = Inr (case map_of kvs ''0'' of Some v \<Rightarrow> v | None \<Rightarrow> JUndef)"
| "js_first (JStr s) = Inr (case s of [] \<Rightarrow> JUndef | c # _ \<Rightarrow> JStr [c])"
| "js_first v = Inr JUndef"

fun truthy :: "json \<Rightarrow> bool" where
  "truthy JUndef = False"
| "truthy JNull = False"
| "truthy (JBool b) = b"
| "truthy (JNum r) = (r \<noteq> 0)"
| "truthy (JStr s) = (s \<noteq> [])"
| "truthy (JArr xs) = True"
| "truthy (JObj kvs) = True"

fun to_num :: "json \<Rightarrow> js_error + real" where
  "to_num (JNum r) = Inr r"
| "to_num v = Inl Unmodelled"

subsection \<open>Numbers and strings\<close>

fun nat_digits :: "nat \<Rightarrow> string" where
  "nat_digits n =
     (if n < 10 then [''0123456789'' ! n]
      else nat_digits (n div 10) @ [''0123456789'' ! (n mod 10)])"

declare nat_digits.simps [simp del]

definition int_string :: "int \<Rightarrow> string" where
  "int_string n = (if n < 0 then CHR ''-'' # nat_digits (nat (- n)) else nat_digits (nat n))"

text \<open>\<^verbatim>\<open>String(n)\<close> for the integer \<open>n\<close>; from \<open>10^21\<close> on JavaScript prints an exponent.\<close>

definition num_string :: "int \<Rightarrow> js_error + string" where
  "num_string n = (if \<bar>n\<bar> < 10 ^ 21 then Inr (int_string n) else Inl Unmodelled)"

text \<open>The string a value has in a string concatenation or a template.\<close>

fun js_to_string :: "json \<Rightarrow> js_error + string" where
  "js_to_string JUndef = Inr ''undefined''"
| "js_to_string JNull = Inr ''null''"
| "js_to_string (JBool b) = Inr (if b then ''true'' else ''false'')"
| "js_to_string (JNum r) = (if r = of_int \<lfloor>r\<rfloor> then num_string \<lfloor>r\<rfloor> else Inl Unmodelled)"
| "js_to_string (JStr s) = Inr s"
| "js_to_string (JArr xs) = Inl Unmodelled"
| "js_to_string (JObj kvs) = Inr ''[object Object]''"

text \<open>\<^verbatim>\<open>Math.trunc\<close> and the remainder operator \<^verbatim>\<open>%\<close>, whose result has the sign of the
  dividend.\<close>

definition js_trunc :: "real \<Rightarrow> int" where
  "js_trunc r = (if 0 \<le> r then \<lfloor>r\<rfloor> else \<lceil>r\<rceil>)"

definition js_rem :: "real \<Rightarrow> real \<Rightarrow> real" where
  "js_rem a b = a - b * of_int (js_trunc (a / b))"

text \<open>
  \<^verbatim>\<open>function pad0(num, len = 2, pad = '0') {
    return (pad.repeat(len) + `${num}`).slice(-len) }\<close>
\<close>

definition slice_last :: "nat \<Rightarrow> string \<Rightarrow> string" where
  "slice_last len s = (if len = 0 then s else drop (length s - len) s)"

definition pad0 :: "int \<Rightarrow> nat \<Rightarrow> string \<Rightarrow> string" where
  "pad0 num len pad = slice_last len (concat (replicate len pad) @ int_string num)"

subsection \<open>Dates\<close>

text \<open>
  A \<^verbatim>\<open>Date\<close> is its time value, the milliseconds since the epoch. \<^verbatim>\<open>setTime\<close> truncates
  its argument and accepts \<open>8.64 * 10^15\<close> at most in magnitude. The UTC fields follow
  ECMAScript: the day number is \<open>t div 86400000\<close>, and the month and the day of the month are
  read off the proleptic Gregorian calendar.
\<close>

definition setTime :: "real \<Rightarrow> js_error + int" where
  "setTime r = (if \<bar>js_trunc r\<bar> \<le> 8640000000000000 then Inr (js_trunc r) else Inl Unmodelled)"

definition getUTCHours :: "int \<Rightarrow> int" where
  "getUTCHours t = (t div 3600000) mod 24"

definition getUTCMinutes :: "int \<Rightarrow> int" where
  "getUTCMinutes t = (t div 60000) mod 60"

definition civil :: "int \<Rightarrow> int \<times> int" where
  "civil days =
     (let z = days + 719468;
          doe = z mod 146097;
          yoe = (doe - doe div 1460 + doe div 36524 - doe div 146096) div 365;
          doy = doe - (365 * yoe + yoe div 4 - yoe div 100);
          mp = (5 * doy + 2) div 153
      in (if mp < 10 then mp + 3 else mp - 9, doy - (153 * mp + 2) div 5 + 1))"

definition getUTCMonth :: "int \<Rightarrow> int" where
  "getUTCMonth t = fst (civil (t div 86400000)) - 1"

definition getUTCDate :: "int \<Rightarrow> int" where
  "getUTCDate t = snd (civil (t div 86400000))"

text \<open>
  \<^verbatim>\<open>Date.prototype.toHHMM = function () {
    return pad0(this.getUTCHours()) + ':' + pad0(this.getUTCMinutes()) }
  Date.prototype.toMMDD_HHMM = function () {
    return pad0(this.getUTCMonth() + 1) + '-' + pad0(this.getUTCDate()) + ' ' + this.toHHMM() }\<close>
\<close>

definition toHHMM :: "int \<Rightarrow> string" where
  "toHHMM t = pad0 (getUTCHours t) 2 ''0'' @ '':'' @ pad0 (getUTCMinutes t) 2 ''0''"

definition toMMDD_HHMM :: "int \<Rightarrow> string" where
  "toMMDD_HHMM t =
     pad0 (getUTCMonth t + 1) 2 ''0'' @ ''-'' @ pad0 (getUTCDate t) 2 ''0'' @ '' '' @ toHHMM t"

section \<open>Constants\<close>

text \<open>
  \<^verbatim>\<open>import { BASE_URL, C_DEGREE, C_WINDIR, VARIABLE_LIST } from './constants.js'\<close>

  The file \<^verbatim>\<open>constants.js\<close> is not among the sources. \<open>BASE_URL\<close> and \<open>VARIABLE_LIST\<close> are
  parameters of the model (the record \<open>constants\<close> below); the two display tables are taken
  from the specification.
\<close>

text \<open>Modelled from the spec: \<^verbatim>\<open>C_DEGREE\<close> of \<^verbatim>\<open>constants.js\<close>, the degree character that
  follows every temperature (code unit 176).\<close>

definition C_DEGREE :: string where
  "C_DEGREE = [CHR 0xB0]"

text \<open>Modelled from the spec: \<^verbatim>\<open>C_WINDIR\<close> of \<^verbatim>\<open>constants.js\<close>, the 16-point compass table,
  clockwise from north in steps of 22.5 degrees.\<close>

definition C_WINDIR :: "string list" where
  "C_WINDIR = [''N'', ''NNE'', ''NE'', ''ENE'', ''E'', ''ESE'', ''SE'', ''SSE'',
               ''S'', ''SSW'', ''SW'', ''WSW'', ''W'', ''WNW'', ''NW'', ''NNW'']"

text \<open>
  An entry of \<^verbatim>\<open>VARIABLE_LIST\<close> has the members \<^verbatim>\<open>description\<close>, \<^verbatim>\<open>section\<close> and \<^verbatim>\<open>data\<close>.
  The table is an object keyed by the variable ids; it is modelled by the list of its
  entries in the order \<^verbatim>\<open>for (let i in VARIABLE_LIST)\<close> visits them, and the keys of an object
  are distinct. \<open>getTimezoneOffset\<close> is what \<^verbatim>\<open>new Date().getTimezoneOffset()\<close> returns on the
  host, in minutes.
\<close>

record var_spec =
  description_of :: string
  section_of :: string
  data_of :: string

record constants =
  BASE_URL :: string
  VARIABLE_LIST :: "(string \<times> var_spec) list"
  getTimezoneOffset :: int

section \<open>Unit conversion\<close>

text \<open>
  The three converters are local functions of \<^verbatim>\<open>update_variables\<close>:

  \<^verbatim>\<open>function kelvinToUnit(units, p) { let ret
    switch (units) {
      case 'f': ret = Math.floor(((p - 273.15) * 9) / 5 + 32.49) + C_DEGREE; break
      case 'c': ret = Math.floor(p - 273.15 + 0.49) + C_DEGREE; break
      default:  ret = Math.floor(p + 0.49) + C_DEGREE }
    return ret }\<close>
\<close>

definition kelvinToUnit :: "string \<Rightarrow> json \<Rightarrow> js_error + json" where
  "kelvinToUnit units p =
     thenE (to_num p) (\<lambda>k.
       thenE (num_string
                (if units = ''f'' then \<lfloor>((k - 273.15) * 9) / 5 + 32.49\<rfloor>
                 else if units = ''c'' then \<lfloor>k - 273.15 + 0.49\<rfloor>
                 else \<lfloor>k + 0.49\<rfloor>))
         (\<lambda>s. Inr (JStr (s @ C_DEGREE))))"

text \<open>
  \<^verbatim>\<open>function hpaToUnit(units, p) { let ret
    switch (units) {
      case 'i': ret = parseFloat(Math.floor((p / 33.863886666667) * 100) / 100); break
      case 'm': ret = Math.floor((p / 133.322387415) * 100); break
      default:  ret = p; break }
    return ret }\<close>
\<close>

definition hpaToUnit :: "string \<Rightarrow> json \<Rightarrow> js_error + json" where
  "hpaToUnit units p =
     (if units = ''i'' then
        thenE (to_num p) (\<lambda>h. Inr (JNum (of_int \<lfloor>(h / 33.863886666667) * 100\<rfloor> / 100)))
      else if units = ''m'' then
        thenE (to_num p) (\<lambda>h. Inr (JNum (of_int \<lfloor>(h / 133.322387415) * 100\<rfloor>)))
      else Inr p)"

text \<open>
  \<^verbatim>\<open>function speedToUnit(units, p) { let ret = p
    switch (units) {
      case 'm': ret = Math.floor(p * 100 + 0.49) / 100; break
      case 'i': ret = Math.floor(p * 22.3694 + 0.49) / 10; break }
    return ret }\<close>
\<close>

definition speedToUnit :: "string \<Rightarrow> json \<Rightarrow> js_error + json" where
  "speedToUnit units p =
     (if units = ''m'' then
        thenE (to_num p) (\<lambda>s. Inr (JNum (of_int \<lfloor>s * 100 + 0.49\<rfloor> / 100)))
      else if units = ''i'' then
        thenE (to_num p) (\<lambda>s. Inr (JNum (of_int \<lfloor>s * 22.3694 + 0.49\<rfloor> / 10)))
      else Inr p)"

text \<open>
  The compass label of a bearing, inline in \<^verbatim>\<open>update_variables\<close>:

  \<^verbatim>\<open>const d = data.wind.deg
  dv = C_WINDIR[Math.floor((d % 360) / 22.5 + 0.5) % 16]\<close>

  An index outside the table reads \<^verbatim>\<open>undefined\<close>.
\<close>

definition windir_index :: "real \<Rightarrow> int" where
  "windir_index d = js_trunc (js_rem (of_int \<lfloor>js_rem d 360 / 22.5 + 0.5\<rfloor>) 16)"

definition windir :: "real \<Rightarrow> json" where
  "windir d =
     (let n = windir_index d
      in if 0 \<le> n \<and> n < int (length C_WINDIR) then JStr (C_WINDIR ! nat n) else JUndef)"

section \<open>Controller state\<close>

text \<open>
  The fields of the configuration the module reads. \<open>None\<close> stands for \<^verbatim>\<open>undefined\<close>; the
  refresh frequency is the number of minutes.
\<close>

record ow_config =
  cfg_apikey :: "string option"
  cfg_location :: "string option"
  cfg_units :: string
  cfg_tz :: "string option"
  cfg_refresh :: int

datatype status =
  StatusOk | StatusConnecting | StatusBadConfig | StatusConnectionFailure
  | StatusUnknownError | StatusError

datatype request = WeatherPoll | IconFetch

text \<open>
  What the module sends out: the HTTP requests it hands to the REST client (with the callback
  they carry) and its calls of the host framework, in the order of the calls. The host
  framework itself (\<^verbatim>\<open>InstanceBase\<close>) is not part of the module.
\<close>

datatype effect =
    HttpGet request string
  | Log string json
  | UpdateStatus status json
  | SetVariableDefinitions "(string \<times> string) list"
  | SetVariableValues "(string \<times> json) list"
  | CheckFeedbacks string
  | SetActionDefinitions
  | SetFeedbackDefinitions
  | SetPresetDefinitions
  | SaveConfig ow_config

text \<open>
  The instance fields of \<^verbatim>\<open>OWInstance\<close>. \<open>client\<close> is \<open>None\<close> when the field is absent and
  \<open>Some h\<close> when a REST client exists, \<open>h\<close> telling whether its \<^verbatim>\<open>'error'\<close> listener is
  registered; \<open>heartbeat\<close> tells whether the interval timer is set.
\<close>

record ow_state =
  config :: ow_config
  weather :: json
  update :: int
  lastPolled :: int
  icons :: "(string \<times> string) list"
  iconID :: string
  mph :: bool
  hasError :: bool
  tz :: json
  isDay :: json
  client :: "bool option"
  heartbeat :: bool
  emitted :: "effect list"

definition emit :: "effect \<Rightarrow> ow_state \<Rightarrow> ow_state" where
  "emit e st = st\<lparr>emitted := emitted st @ [e]\<rparr>"

definition lift :: "ow_state \<Rightarrow> js_error + 'a \<Rightarrow> (js_error \<times> ow_state) + 'a" where
  "lift st m = (case m of Inl e \<Rightarrow> Inl (e, st) | Inr x \<Rightarrow> Inr x)"

text \<open>The instance as the constructor leaves it; \<^verbatim>\<open>init\<close> sets the fields before they are
  read.\<close>

definition new_instance :: ow_state where
  "new_instance =
     \<lparr>config = \<lparr>cfg_apikey = None, cfg_location = None, cfg_units = [], cfg_tz = None,
                 cfg_refresh = 0\<rparr>,
      weather = JUndef, update = 0, lastPolled = 0, icons = [], iconID = [], mph = False,
      hasError = False, tz = JUndef, isDay = JUndef, client = None, heartbeat = False,
      emitted = []\<rparr>"

section \<open>Operations\<close>

text \<open>
  \<^verbatim>\<open>init_vars() {
    let vars = []
    this.weather = { location: {}, current: {}, forecast: {} }
    this.update = this.config.refresh * 60000
    this.lastPolled = 0
    this.icons = {}
    this.iconID = ''
    this.mph = 'i' == this.config.units
    this.hasError = false
    this.tz = 0
    for (let i in VARIABLE_LIST) {
      vars.push({ variableId: i, name: VARIABLE_LIST[i].description }) }
    this.setVariableDefinitions(vars) }\<close>
\<close>

definition init_vars :: "constants \<Rightarrow> ow_state \<Rightarrow> ow_state" where
  "init_vars c st =
     emit (SetVariableDefinitions (map (\<lambda>(i, s). (i, description_of s)) (VARIABLE_LIST c)))
       (st\<lparr>weather := JObj [(''location'', JObj []), (''current'', JObj []),
                            (''forecast'', JObj [])],
           update := cfg_refresh (config st) * 60000,
           lastPolled := 0,
           icons := [],
           iconID := [],
           mph := (''i'' = cfg_units (config st)),
           hasError := False,
           tz := JNum 0\<rparr>)"

text \<open>
  \<^verbatim>\<open>update_localtimes() {
    let dv = ''
    let vars = {}
    for (const i of ['l_localtime', 'l_time']) {
      const now = new Date()
      const utc = now.getTime()
      dv = new Date()
      dv.setTime(utc + this.tz * 1000)
      dv = 'l_time' == i ? dv.toHHMM() : (dv = dv.toMMDD_HHMM())
      vars[i] = dv }
    this.setVariableValues(vars) }\<close>

  The clock is read once: \<open>now\<close> is the time of the call in milliseconds.
\<close>

definition update_localtimes :: "ow_state \<Rightarrow> int \<Rightarrow> (js_error \<times> ow_state) + ow_state" where
  "update_localtimes st now =
     (case thenE (to_num (tz st)) (\<lambda>off. setTime (of_int now + off * 1000)) of
        Inl e \<Rightarrow> Inl (e, st)
      | Inr t \<Rightarrow>
          Inr (emit (SetVariableValues [(''l_localtime'', JStr (toMMDD_HHMM t)),
                                        (''l_time'', JStr (toHHMM t))]) st))"

text \<open>
  \<^verbatim>\<open>refresh() {
    if (!this.hasError && this.lastPolled + 60000 <= Date.now()) {
      let url = `${BASE_URL}?q=${this.config.location}&appid=${this.config.apikey}`
      this.lastPolled = Date.now()
      this.client.get(url, (data, response) => { ... }).on('error', (err) => { ... }) } }\<close>

  The two callbacks are \<open>weather_response\<close> and \<open>request_error\<close> below.
\<close>

definition template :: "string option \<Rightarrow> string" where
  "template v = (case v of None \<Rightarrow> ''undefined'' | Some s \<Rightarrow> s)"

definition weather_url :: "constants \<Rightarrow> ow_config \<Rightarrow> string" where
  "weather_url c cfg =
     BASE_URL c @ ''?q='' @ template (cfg_location cfg) @ ''&appid='' @ template (cfg_apikey cfg)"

definition refresh :: "constants \<Rightarrow> ow_state \<Rightarrow> int \<Rightarrow> (js_error \<times> ow_state) + ow_state" where
  "refresh c st now =
     (if \<not> hasError st \<and> lastPolled st + 60000 \<le> now then
        (let url = weather_url c (config st);
             st1 = st\<lparr>lastPolled := now\<rparr>
         in case client st1 of
              None \<Rightarrow> Inl (TypeError, st1)
            | Some h \<Rightarrow> Inr (emit (HttpGet WeatherPoll url) st1))
      else Inr st)"

text \<open>
  \<^verbatim>\<open>pulse() {
    let short = this.lastPolled + this.update - Date.now()
    if (short <= 0) { this.refresh() }
    this.update_localtimes() }\<close>
\<close>

definition pulse :: "constants \<Rightarrow> ow_state \<Rightarrow> int \<Rightarrow> (js_error \<times> ow_state) + ow_state" where
  "pulse c st now =
     (let short = lastPolled st + update st - now
      in case (if short \<le> 0 then refresh c st now else Inr st) of
           Inl e \<Rightarrow> Inl e
         | Inr st1 \<Rightarrow> update_localtimes st1 now)"

text \<open>
  \<^verbatim>\<open>update_graphic(cond) {
    const code = cond[0].icon
    if (code != this.iconID) {
      this.iconID = code
      if (this.icons[code]) { this.checkFeedbacks('icon') }
      else {
        this.client.get(`http://openweathermap.org/img/wn/${code}@2x.png`,
            async (data, response) => { ... }).on('error', (err) => { ... }) } } }\<close>

  An icon code is a string. The two callbacks are \<open>icon_response\<close> and \<open>request_error\<close>.
\<close>

definition icon_url :: "string \<Rightarrow> string" where
  "icon_url code = ''http://openweathermap.org/img/wn/'' @ code @ ''@2x.png''"

definition update_graphic :: "ow_state \<Rightarrow> json \<Rightarrow> (js_error \<times> ow_state) + ow_state" where
  "update_graphic st cond =
     (case thenE (js_first cond) (\<lambda>c0. js_get c0 ''icon'') of
        Inl e \<Rightarrow> Inl (e, st)
      | Inr (JStr code) \<Rightarrow>
          if code \<noteq> iconID st then
            (let st1 = st\<lparr>iconID := code\<rparr>
             in if (case map_of (icons st1) code of Some png \<Rightarrow> png \<noteq> [] | None \<Rightarrow> False)
                then Inr (emit (CheckFeedbacks ''icon'') st1)
                else (case client st1 of
                        None \<Rightarrow> Inl (TypeError, st1)
                      | Some h \<Rightarrow> Inr (emit (HttpGet IconFetch (icon_url code)) st1)))
          else Inr st
      | Inr v \<Rightarrow> Inl (Unmodelled, st))"

text \<open>
  The callback of the icon request, for the code the request was made for:

  \<^verbatim>\<open>async (data, response) => {
    if (response.statusCode == 200) {
      const image = await Jimp.read(Buffer.from(data))
      const png = await image.scaleToFit({ w: 72, h: 72 }).getBase64(JimpMime.png)
      this.icons[code] = png
      this.checkFeedbacks('icon') } }\<close>

  \<open>png\<close> is what the image library produces from the body, \<open>None\<close> when it rejects it.
  The callback is taken as one step: nothing of the instance is read or written before the
  two \<^verbatim>\<open>await\<close>s are over.
\<close>

definition icon_response :: "ow_state \<Rightarrow> string \<Rightarrow> int \<Rightarrow> string option \<Rightarrow> ow_state" where
  "icon_response st code statusCode png =
     (if statusCode = 200 then
        (case png of
           None \<Rightarrow> st
         | Some p \<Rightarrow> emit (CheckFeedbacks ''icon'') (st\<lparr>icons := AList.update code p (icons st)\<rparr>))
      else st)"

text \<open>
  \<^verbatim>\<open>.on('error', (err) => {
    let emsg = err.message
    this.log('error', emsg)
    this.updateStatus(InstanceStatus.Error, emsg) })\<close>

  The same handler is attached to the weather request and to the icon request.
\<close>

definition request_error :: "ow_state \<Rightarrow> json \<Rightarrow> ow_state" where
  "request_error st emsg = emit (UpdateStatus StatusError emsg) (emit (Log ''error'' emsg) st)"

section \<open>The variable mapper\<close>

text \<open>
  The body of the loop of \<^verbatim>\<open>update_variables\<close>, for the variable \<open>i\<close> and its entry \<open>spec\<close>
  of the table. \<open>dt\<close> is \<^verbatim>\<open>data.dt\<close>, \<open>tzl\<close> the local variable \<^verbatim>\<open>tz\<close>, and \<open>dv\<close> the
  variable \<^verbatim>\<open>dv\<close>, which is declared before the loop and so keeps the value of the previous
  round where no case assigns it. The result is the instance and \<open>Some\<close> of the new \<open>dv\<close>,
  which the loop stores under \<open>i\<close>, or \<open>None\<close> after \<^verbatim>\<open>continue\<close>.

  \<^verbatim>\<open>for (let i in v) {
    let k = v[i].section
    let p = data[k] ? data[k][v[i].data] : data[v[i].data]
    switch (k) {
      case '':
        if (['l_localtime', 'l_time'].includes(i)) { continue }
        else { dv = data[v[i].data] }
        break
      case 'local':
        switch (i) {
          case 'c_feels':
          case 'c_temp': dv = kelvinToUnit(this.mph ? 'f' : 'c', data.main[v[i].data]); break
          case 'c_press': dv = hpaToUnit(this.mph ? 'i' : 'm', data.main[v[i].data]); break
          case 'c_wind': dv = speedToUnit(this.mph ? 'i' : 'm', data.wind[v[i].data]); break }
        break
      case 'main':
        switch (i) {
          case 'c_inhg': case 'c_mmhg': case 'c_hpa': dv = hpaToUnit(i.slice(2, 3), p); break
          case 'c_humid': dv = p + '%'; break
          case 'c_tempk': case 'c_feelk': case 'c_tempc': case 'c_feelc':
          case 'c_tempf': case 'c_feelf': dv = kelvinToUnit(i.slice(-1), p); break }
        break
      case 'sys': dv = data[k][v[i].data]; break
      case 'wind': dv = speedToUnit(i.slice(-1), data[k][v[i].data]); break
      case 'weather':
        dv = data.weather[0][v[i].data]
        this.update_graphic(data.weather)
        break
      case 'internal':
        if (i == 'c_winddir') {
          const d = data.wind.deg
          dv = C_WINDIR[Math.floor((d % 360) / 22.5 + 0.5) % 16]
        } else if (i == 'c_day') {
          dv = dt > data.sys.sunrise && dt < data.sys.sunset
          this.isDay = dv }
        break
      case 'time':
        let d = new Date()
        switch (i) {
          case 'c_time': d.setTime((dt + tz) * 1000); dv = d.toMMDD_HHMM(); break
          case 'c_sunrise': d.setTime((data.sys.sunrise + tz) * 1000); dv = d.toHHMM(); break
          case 'c_sunset': d.setTime((data.sys.sunset + tz) * 1000); dv = d.toHHMM(); break }
        break
      case 'forecast': break }
    vars[i] = dv }\<close>
\<close>

definition get2 :: "json \<Rightarrow> string \<Rightarrow> string \<Rightarrow> js_error + json" where
  "get2 data k f = thenE (js_get data k) (\<lambda>s. js_get s f)"

definition lookup_p :: "json \<Rightarrow> string \<Rightarrow> string \<Rightarrow> js_error + json" where
  "lookup_p data k f =
     thenE (js_get data k) (\<lambda>s. if truthy s then js_get s f else js_get data f)"

definition last_char :: "string \<Rightarrow> string" where
  "last_char i = (if i = [] then [] else [last i])"

definition is_day :: "json \<Rightarrow> json \<Rightarrow> js_error + json" where
  "is_day data dt =
     thenE (get2 data ''sys'' ''sunrise'') (\<lambda>sr.
     thenE (to_num dt) (\<lambda>a.
     thenE (to_num sr) (\<lambda>b.
       if a > b then
         thenE (get2 data ''sys'' ''sunset'') (\<lambda>ss.
         thenE (to_num ss) (\<lambda>c. Inr (JBool (a < c))))
       else Inr (JBool False))))"

definition shifted :: "json \<Rightarrow> json \<Rightarrow> js_error + int" where
  "shifted t tzl =
     thenE (to_num t) (\<lambda>a. thenE (to_num tzl) (\<lambda>b. setTime ((a + b) * 1000)))"

definition map_variable ::
  "ow_state \<Rightarrow> json \<Rightarrow> json \<Rightarrow> json \<Rightarrow> string \<Rightarrow> var_spec \<Rightarrow> json
     \<Rightarrow> (js_error \<times> ow_state) + (ow_state \<times> json option)" where
  "map_variable st data dt tzl i spec dv =
     (let k = section_of spec; f = data_of spec
      in case lookup_p data k f of
           Inl e \<Rightarrow> Inl (e, st)
         | Inr p \<Rightarrow>
             if k = [] then
               (if i = ''l_localtime'' \<or> i = ''l_time'' then Inr (st, None)
                else lift st (thenE (js_get data f) (\<lambda>v. Inr (st, Some v))))
             else if k = ''local'' then
               (if i = ''c_feels'' \<or> i = ''c_temp'' then
                  lift st (thenE (get2 data ''main'' f) (\<lambda>x.
                           thenE (kelvinToUnit (if mph st then ''f'' else ''c'') x) (\<lambda>v.
                           Inr (st, Some v))))
                else if i = ''c_press'' then
                  lift st (thenE (get2 data ''main'' f) (\<lambda>x.
                           thenE (hpaToUnit (if mph st then ''i'' else ''m'') x) (\<lambda>v.
                           Inr (st, Some v))))
                else if i = ''c_wind'' then
                  lift st (thenE (get2 data ''wind'' f) (\<lambda>x.
                           thenE (speedToUnit (if mph st then ''i'' else ''m'') x) (\<lambda>v.
                           Inr (st, Some v))))
                else Inr (st, Some dv))
             else if k = ''main'' then
               (if i = ''c_inhg'' \<or> i = ''c_mmhg'' \<or> i = ''c_hpa'' then
                  lift st (thenE (hpaToUnit (take 1 (drop 2 i)) p) (\<lambda>v. Inr (st, Some v)))
                else if i = ''c_humid'' then
                  lift st (thenE (js_to_string p) (\<lambda>s. Inr (st, Some (JStr (s @ ''%'')))))
                else if i = ''c_tempk'' \<or> i = ''c_feelk'' \<or> i = ''c_tempc'' \<or> i = ''c_feelc''
                        \<or> i = ''c_tempf'' \<or> i = ''c_feelf'' then
                  lift st (thenE (kelvinToUnit (last_char i) p) (\<lambda>v. Inr (st, Some v)))
                else Inr (st, Some dv))
             else if k = ''sys'' then
               lift st (thenE (get2 data k f) (\<lambda>v. Inr (st, Some v)))
             else if k = ''wind'' then
               lift st (thenE (get2 data k f) (\<lambda>x.
                        thenE (speedToUnit (last_char i) x) (\<lambda>v. Inr (st, Some v))))
             else if k = ''weather'' then
               (case thenE (js_get data ''weather'') (\<lambda>w.
                     thenE (js_first w) (\<lambda>w0.
                     thenE (js_get w0 f) (\<lambda>v. Inr (v, w)))) of
                  Inl e \<Rightarrow> Inl (e, st)
                | Inr (v, w) \<Rightarrow>
                    (case update_graphic st w of
                       Inl e \<Rightarrow> Inl e
                     | Inr st1 \<Rightarrow> Inr (st1, Some v)))
             else if k = ''internal'' then
               (if i = ''c_winddir'' then
                  lift st (thenE (get2 data ''wind'' ''deg'') (\<lambda>x.
                           thenE (to_num x) (\<lambda>d. Inr (st, Some (windir d)))))
                else if i = ''c_day'' then
                  (case is_day data dt of
                     Inl e \<Rightarrow> Inl (e, st)
                   | Inr b \<Rightarrow> Inr (st\<lparr>isDay := b\<rparr>, Some b))
                else Inr (st, Some dv))
             else if k = ''time'' then
               (if i = ''c_time'' then
                  lift st (thenE (shifted dt tzl) (\<lambda>t. Inr (st, Some (JStr (toMMDD_HHMM t)))))
                else if i = ''c_sunrise'' then
                  lift st (thenE (get2 data ''sys'' ''sunrise'') (\<lambda>x.
                           thenE (shifted x tzl) (\<lambda>t. Inr (st, Some (JStr (toHHMM t))))))
                else if i = ''c_sunset'' then
                  lift st (thenE (get2 data ''sys'' ''sunset'') (\<lambda>x.
                           thenE (shifted x tzl) (\<lambda>t. Inr (st, Some (JStr (toHHMM t))))))
                else Inr (st, Some dv))
             else Inr (st, Some dv))"

fun map_variables ::
  "json \<Rightarrow> json \<Rightarrow> json \<Rightarrow> (string \<times> var_spec) list \<Rightarrow> ow_state \<Rightarrow> json
     \<Rightarrow> (string \<times> json) list
     \<Rightarrow> (js_error \<times> ow_state) + (ow_state \<times> json \<times> (string \<times> json) list)" where
  "map_variables data dt tzl [] st dv vars = Inr (st, dv, vars)"
| "map_variables data dt tzl ((i, spec) # rest) st dv vars =
     (case map_variable st data dt tzl i spec dv of
        Inl e \<Rightarrow> Inl e
      | Inr (st1, None) \<Rightarrow> map_variables data dt tzl rest st1 dv vars
      | Inr (st1, Some dv1) \<Rightarrow>
          map_variables data dt tzl rest st1 dv1 (AList.update i dv1 vars))"

declare map_variables.simps [simp del]

text \<open>
  \<^verbatim>\<open>update_variables(data) {
    let v = VARIABLE_LIST
    let dv = ''
    let dt = data.dt
    let vars = {}
    let tz = data.timezone
    this.tz = tz
    switch (this.config.tz) {
      case 'h': const now = new Date()
                tz = -now.getTimezoneOffset() * 60
                break
      case 'u': tz = 0
                break }
    this.weather = data
    for (let i in v) { ... }
    this.setVariableValues(vars) }\<close>
\<close>

definition effective_offset :: "constants \<Rightarrow> string option \<Rightarrow> json \<Rightarrow> json" where
  "effective_offset c m tz0 =
     (if m = Some ''h'' then JNum (of_int (- getTimezoneOffset c * 60))
      else if m = Some ''u'' then JNum 0
      else tz0)"

definition update_variables ::
  "constants \<Rightarrow> ow_state \<Rightarrow> json \<Rightarrow> (js_error \<times> ow_state) + ow_state" where
  "update_variables c st data =
     (case thenE (js_get data ''dt'') (\<lambda>dt.
           thenE (js_get data ''timezone'') (\<lambda>tz0. Inr (dt, tz0))) of
        Inl e \<Rightarrow> Inl (e, st)
      | Inr (dt, tz0) \<Rightarrow>
          (let st1 = st\<lparr>tz := tz0\<rparr>;
               tzl = effective_offset c (cfg_tz (config st1)) tz0;
               st2 = st1\<lparr>weather := data\<rparr>
           in case map_variables data dt tzl (VARIABLE_LIST c) st2 (JStr []) [] of
                Inl e \<Rightarrow> Inl e
              | Inr (st3, dv, vars) \<Rightarrow> Inr (emit (SetVariableValues vars) st3)))"

section \<open>Poll completion\<close>

text \<open>
  The callback of the weather request:

  \<^verbatim>\<open>(data, response) => {
    if (data.error) {
      this.log('error', data.error.message)
      this.updateStatus(InstanceStatus.UnknownError, data.error.message)
      this.hasError = true
    } else if (response.statusCode == 200) {
      this.updateStatus(InstanceStatus.Ok, 'Connected')
      this.update_variables(data)
    } else {
      this.log('error', data.message)
      this.updateStatus(InstanceStatus.UnknownError, data.message)
      this.init_vars()
      this.setVariableValues({ l_name: data.message }) } }\<close>
\<close>

definition weather_response ::
  "constants \<Rightarrow> ow_state \<Rightarrow> json \<Rightarrow> int \<Rightarrow> (js_error \<times> ow_state) + ow_state" where
  "weather_response c st data statusCode =
     (case js_get data ''error'' of
        Inl e \<Rightarrow> Inl (e, st)
      | Inr err \<Rightarrow>
          if truthy err then
            (case js_get err ''message'' of
               Inl e \<Rightarrow> Inl (e, st)
             | Inr msg \<Rightarrow>
                 Inr ((emit (UpdateStatus StatusUnknownError msg)
                         (emit (Log ''error'' msg) st))\<lparr>hasError := True\<rparr>))
          else if statusCode = 200 then
            update_variables c (emit (UpdateStatus StatusOk (JStr ''Connected'')) st) data
          else
            (case js_get data ''message'' of
               Inl e \<Rightarrow> Inl (e, st)
             | Inr msg \<Rightarrow>
                 Inr (emit (SetVariableValues [(''l_name'', msg)])
                        (init_vars c
                           (emit (UpdateStatus StatusUnknownError msg)
                              (emit (Log ''error'' msg) st))))))"

section \<open>Life cycle\<close>

text \<open>
  \<^verbatim>\<open>destroy() {
    if (this.heartbeat) { clearInterval(this.heartbeat); delete this.heartbeat }
    this.init_vars()
    if (this.client) { delete this.client } }\<close>
\<close>

definition destroy :: "constants \<Rightarrow> ow_state \<Rightarrow> ow_state" where
  "destroy c st = (init_vars c (st\<lparr>heartbeat := False\<rparr>))\<lparr>client := None\<rparr>"

text \<open>
  \<^verbatim>\<open>init_connection() {
    if (this.client) { delete this.client }
    if (this.heartbeat) { clearInterval(this.heartbeat); delete this.heartbeat }
    this.client = new rest_client()
    if (this.config.apikey === undefined || this.config.apikey == '') {
      this.updateStatus(InstanceStatus.BadConfig, 'Missing API key')
      return }
    this.updateStatus(InstanceStatus.Connecting)
    this.client.on('error', (err) => {
      this.updateStatus(InstanceStatus.ConnectionFailure, err)
      this.hasError = true })
    this.heartbeat = setInterval(() => { this.pulse() }, 60000)
    this.refresh()
    this.update_localtimes() }\<close>
\<close>

definition init_connection ::
  "constants \<Rightarrow> ow_state \<Rightarrow> int \<Rightarrow> (js_error \<times> ow_state) + ow_state" where
  "init_connection c st now =
     (let st1 = st\<lparr>heartbeat := False, client := Some False\<rparr>
      in if cfg_apikey (config st1) = None \<or> cfg_apikey (config st1) = Some [] then
           Inr (emit (UpdateStatus StatusBadConfig (JStr ''Missing API key'')) st1)
         else
           (let st2 = (emit (UpdateStatus StatusConnecting JUndef) st1)
                        \<lparr>client := Some True, heartbeat := True\<rparr>
            in case refresh c st2 now of
                 Inl e \<Rightarrow> Inl e
               | Inr st3 \<Rightarrow> update_localtimes st3 now))"

text \<open>The \<^verbatim>\<open>'error'\<close> listener of the client, registered by \<^verbatim>\<open>init_connection\<close>.\<close>

definition client_error :: "ow_state \<Rightarrow> json \<Rightarrow> ow_state" where
  "client_error st err = (emit (UpdateStatus StatusConnectionFailure err) st)\<lparr>hasError := True\<rparr>"

text \<open>
  \<^verbatim>\<open>async configUpdated(config) {
    this.config = config
    this.destroy()
    this.init_actions()
    this.init_feedbacks(this)
    this.init_presets()
    this.init_connection() }\<close>
\<close>

definition configUpdated ::
  "constants \<Rightarrow> ow_state \<Rightarrow> ow_config \<Rightarrow> int \<Rightarrow> (js_error \<times> ow_state) + ow_state" where
  "configUpdated c st cfg now =
     init_connection c
       (emit SetPresetDefinitions
          (emit SetFeedbackDefinitions
             (emit SetActionDefinitions (destroy c (st\<lparr>config := cfg\<rparr>))))) now"

text \<open>
  \<^verbatim>\<open>async init(config) {
    if (config.tz == null) { config.tz = 'h'; this.saveConfig(config) }
    this.config = config
    this.init_vars()
    this.init_feedbacks(this)
    this.init_presets()
    this.init_actions()
    this.init_connection() }\<close>
\<close>

definition init ::
  "constants \<Rightarrow> ow_state \<Rightarrow> ow_config \<Rightarrow> int \<Rightarrow> (js_error \<times> ow_state) + ow_state" where
  "init c st cfg now =
     (let cfg1 = (if cfg_tz cfg = None then cfg\<lparr>cfg_tz := Some ''h''\<rparr> else cfg);
          st1 = (if cfg_tz cfg = None then emit (SaveConfig cfg1) st else st)
      in init_connection c
           (emit SetActionDefinitions
              (emit SetPresetDefinitions
                 (emit SetFeedbackDefinitions (init_vars c (st1\<lparr>config := cfg1\<rparr>))))) now)"

section \<open>Events\<close>

text \<open>
  The module runs on an event loop: each call of the host, each firing of the timer and each
  callback of the REST client runs to its end before the next. An event is one of them, with
  the time of the clock and the arguments it receives; the readings of the clock within one
  call are taken to be equal. Where a call ends by an exception, the instance stays as the
  exception left it.
\<close>

datatype event =
    Init ow_config int
  | ConfigUpdated ow_config int
  | Destroy
  | RefreshAction int
  | Tick int
  | WeatherResponse json int
  | WeatherError json
  | ClientError json
  | IconResponse string int "string option"
  | IconError json

definition settle :: "(js_error \<times> ow_state) + ow_state \<Rightarrow> ow_state" where
  "settle r = (case r of Inl (e, st) \<Rightarrow> st | Inr st \<Rightarrow> st)"

fun step :: "constants \<Rightarrow> ow_state \<Rightarrow> event \<Rightarrow> ow_state" where
  "step c st (Init cfg now) = settle (init c st cfg now)"
| "step c st (ConfigUpdated cfg now) = settle (configUpdated c st cfg now)"
| "step c st Destroy = destroy c st"
| "step c st (RefreshAction now) = settle (refresh c st now)"
| "step c st (Tick now) = (if heartbeat st then settle (pulse c st now) else st)"
| "step c st (WeatherResponse data statusCode) = settle (weather_response c st data statusCode)"
| "step c st (WeatherError emsg) = request_error st emsg"
| "step c st (ClientError err) = (if client st = Some True then client_error st err else st)"
| "step c st (IconResponse code statusCode png) = icon_response st code statusCode png"
| "step c st (IconError emsg) = request_error st emsg"

definition run :: "constants \<Rightarrow> ow_state \<Rightarrow> event list \<Rightarrow> ow_state" where
  "run c st evs = foldl (step c) st evs"

text \<open>The number of requests of a kind among the effects.\<close>

definition fetches :: "request \<Rightarrow> effect list \<Rightarrow> nat" where
  "fetches r effs = length (filter (\<lambda>e. case e of HttpGet r' u \<Rightarrow> r' = r | _ \<Rightarrow> False) effs)"

text \<open>The number of weather requests an event issues: the effects only grow, so it is the
  difference of the two counts.\<close>

definition issued :: "constants \<Rightarrow> ow_state \<Rightarrow> event \<Rightarrow> nat" where
  "issued c st e =
     fetches WeatherPoll (emitted (step c st e)) - fetches WeatherPoll (emitted st)"

text \<open>
  The value the module has last sent to the host for a variable: the calls of
  \<^verbatim>\<open>setVariableValues\<close> merged in their order.
\<close>

definition published :: "effect list \<Rightarrow> string \<Rightarrow> json option" where
  "published effs =
     foldl (\<lambda>m e. case e of SetVariableValues vs \<Rightarrow> m ++ map_of vs | _ \<Rightarrow> m) Map.empty effs"

text \<open>
  The events that run \<^verbatim>\<open>init_vars\<close>: the three life-cycle calls, and the completion of a
  poll with a status other than 200 and no \<^verbatim>\<open>error\<close> member.
\<close>

definition unexpected :: "json \<Rightarrow> int \<Rightarrow> bool" where
  "unexpected data statusCode =
     (case js_get data ''error'' of
        Inl e \<Rightarrow> False
      | Inr err \<Rightarrow> \<not> truthy err \<and> statusCode \<noteq> 200)"

fun runs_init_vars :: "event \<Rightarrow> bool" where
  "runs_init_vars (Init cfg now) = True"
| "runs_init_vars (ConfigUpdated cfg now) = True"
| "runs_init_vars Destroy = True"
| "runs_init_vars (WeatherResponse data statusCode) = unexpected data statusCode"
| "runs_init_vars e = False"

text \<open>Whether \<^verbatim>\<open>init_connection\<close> finds an API key.\<close>

definition key_ok :: "ow_config \<Rightarrow> bool" where
  "key_ok cfg \<longleftrightarrow> cfg_apikey cfg \<noteq> None \<and> cfg_apikey cfg \<noteq> Some []"

text \<open>The time of the clock at the events that may call \<^verbatim>\<open>refresh\<close>.\<close>

fun clock :: "event \<Rightarrow> int option" where
  "clock (Init cfg now) = Some now"
| "clock (ConfigUpdated cfg now) = Some now"
| "clock (RefreshAction now) = Some now"
| "clock (Tick now) = Some now"
| "clock e = None"

text \<open>Whether a bitmap is cached for a code, as \<^verbatim>\<open>this.icons[code]\<close> tests it.\<close>

definition cached :: "ow_state \<Rightarrow> string \<Rightarrow> bool" where
  "cached st code = (case map_of (icons st) code of Some png \<Rightarrow> png \<noteq> [] | None \<Rightarrow> False)"

text \<open>The icon code of \<^verbatim>\<open>cond\<close>: \<^verbatim>\<open>cond[0].icon\<close>.\<close>

definition icon_code :: "json \<Rightarrow> js_error + json" where
  "icon_code cond = thenE (js_first cond) (\<lambda>c0. js_get c0 ''icon'')"

subsection \<open>Auxiliary notions of the proofs\<close>

text \<open>The fields the mapper leaves alone.\<close>

definition keeps :: "ow_state \<Rightarrow> ow_state \<Rightarrow> bool" where
  "keeps st s1 \<longleftrightarrow>
     config s1 = config st \<and> update s1 = update st \<and> lastPolled s1 = lastPolled st \<and>
     icons s1 = icons st \<and> mph s1 = mph st \<and> hasError s1 = hasError st \<and>
     client s1 = client st \<and> heartbeat s1 = heartbeat st \<and>
     fetches WeatherPoll (emitted s1) = fetches WeatherPoll (emitted st)"

text \<open>The fields of the icon cache, and the offset and the document the instance keeps.\<close>

definition same_icons :: "ow_state \<Rightarrow> ow_state \<Rightarrow> bool" where
  "same_icons st s \<longleftrightarrow>
     iconID s = iconID st \<and> icons s = icons st \<and>
     fetches IconFetch (emitted s) = fetches IconFetch (emitted st)"

definition same_offset :: "ow_state \<Rightarrow> ow_state \<Rightarrow> bool" where
  "same_offset st s \<longleftrightarrow> tz s = tz st \<and> weather s = weather st"

definition outcome :: "(js_error \<times> ow_state) + (ow_state \<times> 'a) \<Rightarrow> ow_state" where
  "outcome r = (case r of Inl (e, s) \<Rightarrow> s | Inr (s, x) \<Rightarrow> s)"

definition returns_in :: "ow_state \<Rightarrow> js_error + (ow_state \<times> 'a) \<Rightarrow> bool" where
  "returns_in st m \<longleftrightarrow> (case m of Inl e \<Rightarrow> True | Inr (s, x) \<Rightarrow> s = st)"

definition continue_with ::
  "json \<Rightarrow> json \<Rightarrow> json \<Rightarrow> (string \<times> var_spec) list \<Rightarrow> string \<Rightarrow> json
     \<Rightarrow> (string \<times> json) list \<Rightarrow> (js_error \<times> ow_state) + (ow_state \<times> json option)
     \<Rightarrow> (js_error \<times> ow_state) + (ow_state \<times> json \<times> (string \<times> json) list)" where
  "continue_with data dt tzl rest i dv vars r =
     (case r of
        Inl e \<Rightarrow> Inl e
      | Inr (st1, None) \<Rightarrow> map_variables data dt tzl rest st1 dv vars
      | Inr (st1, Some dv1) \<Rightarrow> map_variables data dt tzl rest st1 dv1 (AList.update i dv1 vars))"

section \<open>A sample installation\<close>

text \<open>
  A table in the shape the mapper expects, with one variable of each kind the properties
  below speak of, a configuration, and the documents of three responses: current weather
  with the temperature \<open>k\<close> and the bearing \<open>deg\<close>, an error envelope, and the body of a
  response with status 401.
\<close>

definition sample_constants :: constants where
  "sample_constants =
     \<lparr>BASE_URL = ''http://api.openweathermap.org/data/2.5/weather'',
      VARIABLE_LIST =
        [(''l_name'',
            \<lparr>description_of = ''Location Name'', section_of = [], data_of = ''name''\<rparr>),
         (''l_localtime'',
            \<lparr>description_of = ''Local Time'', section_of = [], data_of = ''localtime''\<rparr>),
         (''l_time'',
            \<lparr>description_of = ''Local Time of Day'', section_of = [], data_of = ''time''\<rparr>),
         (''c_time'',
            \<lparr>description_of = ''Time last updated'', section_of = ''time'', data_of = ''dt''\<rparr>),
         (''c_temp'',
            \<lparr>description_of = ''Temperature'', section_of = ''local'', data_of = ''temp''\<rparr>),
         (''c_feels'',
            \<lparr>description_of = ''Feels like'', section_of = ''local'',
             data_of = ''feels_like''\<rparr>),
         (''c_tempf'',
            \<lparr>description_of = ''Temperature (F)'', section_of = ''main'', data_of = ''temp''\<rparr>),
         (''c_tempc'',
            \<lparr>description_of = ''Temperature (C)'', section_of = ''main'', data_of = ''temp''\<rparr>),
         (''c_tempk'',
            \<lparr>description_of = ''Temperature (K)'', section_of = ''main'', data_of = ''temp''\<rparr>),
         (''c_text'',
            \<lparr>description_of = ''Condition'', section_of = ''weather'', data_of = ''main''\<rparr>),
         (''c_winddir'',
            \<lparr>description_of = ''Wind direction'', section_of = ''internal'', data_of = []\<rparr>),
         (''c_day'',
            \<lparr>description_of = ''Daytime'', section_of = ''internal'', data_of = []\<rparr>)],
      getTimezoneOffset = - 120\<rparr>"

definition sample_config :: ow_config where
  "sample_config =
     \<lparr>cfg_apikey = Some ''0123abcd'', cfg_location = Some ''Oslo'', cfg_units = ''i'',
      cfg_tz = Some ''u'', cfg_refresh = 20\<rparr>"

definition sample_document :: "real \<Rightarrow> real \<Rightarrow> json" where
  "sample_document k deg =
     JObj [(''name'', JStr ''Oslo''),
           (''dt'', JNum 1700000000),
           (''timezone'', JNum 3600),
           (''main'', JObj [(''temp'', JNum k), (''feels_like'', JNum 273.15)]),
           (''wind'', JObj [(''speed'', JNum 10), (''deg'', JNum deg)]),
           (''sys'', JObj [(''sunrise'', JNum 1699990000), (''sunset'', JNum 1700020000)]),
           (''weather'', JArr [JObj [(''main'', JStr ''Clear''), (''icon'', JStr ''01d'')]])]"

definition sample_envelope :: json where
  "sample_envelope = JObj [(''error'', JObj [(''code'', JNum 1006), (''message'', JStr ''No match'')])]"

definition sample_refusal :: json where
  "sample_refusal = JObj [(''cod'', JNum 401), (''message'', JStr ''Invalid API key'')]"

text \<open>The instance after \<^verbatim>\<open>init\<close> at the time \<open>1700000000000\<close>, its first poll in flight.\<close>

definition sample_started :: ow_state where
  "sample_started = step sample_constants new_instance (Init sample_config 1700000000000)"

text \<open>The same instance after that poll has completed with the error envelope.\<close>

definition sample_latched :: ow_state where
  "sample_latched = step sample_constants sample_started (WeatherResponse sample_envelope 200)"

section \<open>Basic facts\<close>

lemma thenE_simps [simp]: "thenE (Inl e) f = Inl e" "thenE (Inr x) f = f x"
  by (simp_all add: thenE_def)

lemma thenE_Inr: "thenE m f = Inr y \<longleftrightarrow> (\<exists>x. m = Inr x \<and> f x = Inr y)"
  by (cases m) simp_all

lemma fetches_append [simp]: "fetches r (xs @ ys) = fetches r xs + fetches r ys"
  by (simp add: fetches_def)

lemma fetches_simps [simp]:
  "fetches r [] = 0"
  "fetches r (HttpGet r' u # xs) = (if r' = r then 1 else 0) + fetches r xs"
  "fetches r (Log l m # xs) = fetches r xs"
  "fetches r (UpdateStatus s m # xs) = fetches r xs"
  "fetches r (SetVariableDefinitions ds # xs) = fetches r xs"
  "fetches r (SetVariableValues vs # xs) = fetches r xs"
  "fetches r (CheckFeedbacks f # xs) = fetches r xs"
  "fetches r (SetActionDefinitions # xs) = fetches r xs"
  "fetches r (SetFeedbackDefinitions # xs) = fetches r xs"
  "fetches r (SetPresetDefinitions # xs) = fetches r xs"
  "fetches r (SaveConfig cf # xs) = fetches r xs"
  by (simp_all add: fetches_def)

lemma published_snoc:
  "published (effs @ [e]) =
     (case e of SetVariableValues vs \<Rightarrow> published effs ++ map_of vs | _ \<Rightarrow> published effs)"
  by (cases e) (simp_all add: published_def)

lemma published_Nil [simp]: "published [] = Map.empty"
  by (simp add: published_def)

lemma settle_simps [simp]: "settle (Inl (e, st)) = st" "settle (Inr st) = st"
  by (simp_all add: settle_def)

lemma outcome_simps [simp]: "outcome (Inl (e, s)) = s" "outcome (Inr (s, x)) = s"
  by (simp_all add: outcome_def)

lemma emit_fields [simp]:
  "config (emit e st) = config st" "weather (emit e st) = weather st"
  "update (emit e st) = update st" "lastPolled (emit e st) = lastPolled st"
  "icons (emit e st) = icons st" "iconID (emit e st) = iconID st"
  "mph (emit e st) = mph st" "hasError (emit e st) = hasError st"
  "tz (emit e st) = tz st" "isDay (emit e st) = isDay st"
  "client (emit e st) = client st" "heartbeat (emit e st) = heartbeat st"
  "emitted (emit e st) = emitted st @ [e]"
  by (simp_all add: emit_def)

subsection \<open>What the mapper leaves alone\<close>

lemma keeps_refl [simp]: "keeps st st"
  by (simp add: keeps_def)

lemma keeps_trans: "keeps a b \<Longrightarrow> keeps b c \<Longrightarrow> keeps a c"
  by (simp add: keeps_def)

lemma returns_in_Inr [simp]: "returns_in st (Inr (s, x)) \<longleftrightarrow> s = st"
  by (simp add: returns_in_def)

lemma returns_in_thenE: "(\<And>x. returns_in st (f x)) \<Longrightarrow> returns_in st (thenE m f)"
  by (cases m) (simp_all add: returns_in_def)

lemma outcome_lift: "returns_in st m \<Longrightarrow> outcome (lift st m) = st"
  by (auto simp: returns_in_def lift_def outcome_def split: sum.splits)

lemma update_graphic_keeps:
  "update_graphic st cond = Inl (e, s1) \<Longrightarrow> keeps st s1"
  "update_graphic st cond = Inr s1 \<Longrightarrow> keeps st s1"
  by (auto simp: update_graphic_def keeps_def Let_def
           split: sum.splits json.splits if_splits option.splits)

lemma map_variable_keeps: "keeps st (outcome (map_variable st data dt tzl i spec dv))"
proof (cases "lookup_p data (section_of spec) (data_of spec)")
  case (Inl e)
  then show ?thesis by (simp add: map_variable_def)
next
  case (Inr p)
  have wk: "keeps st (outcome (case thenE (js_get data ''weather'') (\<lambda>w.
                     thenE (js_first w) (\<lambda>w0.
                     thenE (js_get w0 f) (\<lambda>v. Inr (v, w)))) of
                  Inl e \<Rightarrow> Inl (e, st)
                | Inr (v, w) \<Rightarrow>
                    (case update_graphic st w of
                       Inl e \<Rightarrow> Inl e
                     | Inr st1 \<Rightarrow> Inr (st1, Some v))))" for f
    by (auto split: sum.splits dest: update_graphic_keeps)
  have dk: "keeps st (outcome (case is_day data dt of
                     Inl e \<Rightarrow> Inl (e, st)
                   | Inr b \<Rightarrow> Inr (st\<lparr>isDay := b\<rparr>, Some b)))"
    by (auto split: sum.splits simp: keeps_def)
  show ?thesis
    unfolding map_variable_def Let_def Inr sum.case
    by (simp add: outcome_lift returns_in_thenE wk dk)
qed

lemma map_variable_keeps_Inr:
  "map_variable st data dt tzl i spec dv = Inr (s1, r) \<Longrightarrow> keeps st s1"
  using map_variable_keeps [of st data dt tzl i spec dv] by simp

lemma map_variables_Cons:
  "map_variables data dt tzl ((i, spec) # rest) st dv vars =
     continue_with data dt tzl rest i dv vars (map_variable st data dt tzl i spec dv)"
  by (simp add: continue_with_def map_variables.simps)

lemma continue_with_simps:
  "continue_with data dt tzl rest i dv vars (Inl e) = Inl e"
  "continue_with data dt tzl rest i dv vars (Inr (st1, None)) =
     map_variables data dt tzl rest st1 dv vars"
  "continue_with data dt tzl rest i dv vars (Inr (st1, Some dv1)) =
     map_variables data dt tzl rest st1 dv1 (AList.update i dv1 vars)"
  by (simp_all add: continue_with_def)

lemmas loop_eval = map_variables.simps(1) map_variables_Cons continue_with_simps

lemma map_variables_keeps:
  "keeps st (outcome (map_variables data dt tzl vl st dv vars))"
proof (induction vl arbitrary: st dv vars)
  case Nil
  show ?case by (simp add: map_variables.simps)
next
  case (Cons a vl)
  obtain i spec where a: "a = (i, spec)" by (cases a)
  have k: "keeps st (outcome (map_variable st data dt tzl i spec dv))"
    by (rule map_variable_keeps)
  show ?case
  proof (cases "map_variable st data dt tzl i spec dv")
    case (Inl b)
    with k show ?thesis by (cases b) (simp add: a loop_eval)
  next
    case (Inr b)
    obtain s1 r where b: "b = (s1, r)" by (cases b)
    from k Inr b have k1: "keeps st s1" by simp
    show ?thesis
    proof (cases r)
      case None
      with Inr b a k1 Cons.IH [of s1 dv vars] show ?thesis
        by (auto simp: loop_eval intro: keeps_trans)
    next
      case (Some dv1)
      with Inr b a k1 Cons.IH [of s1 dv1 "AList.update i dv1 vars"] show ?thesis
        by (auto simp: loop_eval intro: keeps_trans)
    qed
  qed
qed

text \<open>The mapper as the loop after its preamble.\<close>

lemma update_variables_loop:
  assumes "js_get data ''dt'' = Inr dt" and "js_get data ''timezone'' = Inr tz0"
  shows "update_variables c st data =
      (case map_variables data dt (effective_offset c (cfg_tz (config st)) tz0)
              (VARIABLE_LIST c) (st\<lparr>tz := tz0, weather := data\<rparr>) (JStr []) [] of
         Inl e \<Rightarrow> Inl e
       | Inr (st3, dv, vars) \<Rightarrow> Inr (emit (SetVariableValues vars) st3))"
  using assms by (simp add: update_variables_def Let_def)

lemma update_variables_fails:
  "js_get data ''dt'' = Inl e \<or> js_get data ''timezone'' = Inl e
     \<Longrightarrow> \<exists>e'. update_variables c st data = Inl (e', st)"
  by (cases "js_get data ''dt''") (auto simp: update_variables_def)

lemma update_variables_keeps: "keeps st (settle (update_variables c st data))"
proof (cases "js_get data ''dt''")
  case (Inl e)
  then show ?thesis using update_variables_fails [of data e c st] by auto
next
  case dt: (Inr dt)
  show ?thesis
  proof (cases "js_get data ''timezone''")
    case (Inl e)
    then show ?thesis using update_variables_fails [of data e c st] by auto
  next
    case (Inr tz0)
    define st2 where "st2 = st\<lparr>tz := tz0, weather := data\<rparr>"
    define tzl where "tzl = effective_offset c (cfg_tz (config st)) tz0"
    have k2: "keeps st st2" by (simp add: st2_def keeps_def)
    have k3: "keeps st2 (outcome (map_variables data dt tzl (VARIABLE_LIST c) st2 (JStr []) []))"
      by (rule map_variables_keeps)
    note eq = update_variables_loop [OF dt Inr, of c st, folded st2_def tzl_def]
    show ?thesis
    proof (cases "map_variables data dt tzl (VARIABLE_LIST c) st2 (JStr []) []")
      case (Inl x)
      with k3 k2 show ?thesis
        by (cases x) (auto simp: eq intro: keeps_trans)
    next
      case (Inr y)
      obtain s3 dv vars where y: "y = (s3, dv, vars)" by (cases y)
      from k3 Inr y have "keeps st2 s3" by simp
      with k2 have "keeps st s3" by (rule keeps_trans)
      then have "keeps st (emit (SetVariableValues vars) s3)" by (simp add: keeps_def)
      with Inr y show ?thesis by (simp add: eq)
    qed
  qed
qed

subsection \<open>The value the loop stores for a variable\<close>

lemma map_variables_untouched:
  "map_variables data dt tzl vl st dv vars = Inr (st', dv', vars') \<Longrightarrow> i \<notin> fst ` set vl
     \<Longrightarrow> map_of vars' i = map_of vars i"
proof (induction vl arbitrary: st dv vars)
  case Nil
  then show ?case by (simp add: map_variables.simps)
next
  case (Cons a vl)
  obtain j spec where a: "a = (j, spec)" by (cases a)
  from Cons.prems(2) a have ij: "i \<noteq> j" and iv: "i \<notin> fst ` set vl" by auto
  from Cons.prems(1) obtain s1 r where
    m: "map_variable st data dt tzl j spec dv = Inr (s1, r)"
    by (cases "map_variable st data dt tzl j spec dv")
       (auto simp: a loop_eval)
  show ?case
  proof (cases r)
    case None
    with Cons.prems(1) m a have "map_variables data dt tzl vl s1 dv vars = Inr (st', dv', vars')"
      by (simp add: loop_eval)
    from Cons.IH [OF this iv] show ?thesis .
  next
    case (Some dv1)
    with Cons.prems(1) m a
    have "map_variables data dt tzl vl s1 dv1 (AList.update j dv1 vars) = Inr (st', dv', vars')"
      by (simp add: loop_eval)
    from Cons.IH [OF this iv] ij show ?thesis
      by (simp add: update_conv')
  qed
qed

lemma map_variables_entry:
  assumes "map_variables data dt tzl vl st dv vars = Inr (st', dv', vars')"
    and "(i, spec) \<in> set vl" and "distinct (map fst vl)"
    and "\<And>s d s1 r. keeps st s \<Longrightarrow> map_variable s data dt tzl i spec d = Inr (s1, r)
           \<Longrightarrow> r = Some v"
  shows "map_of vars' i = Some v"
  using assms
proof (induction vl arbitrary: st dv vars)
  case Nil
  then show ?case by simp
next
  case (Cons a vl)
  obtain j sp where a: "a = (j, sp)" by (cases a)
  from Cons.prems(1) obtain s1 r where
    m: "map_variable st data dt tzl j sp dv = Inr (s1, r)"
    by (cases "map_variable st data dt tzl j sp dv") (auto simp: a loop_eval)
  have k1: "keeps st s1" by (rule map_variable_keeps_Inr [OF m])
  from Cons.prems(3) a have jv: "j \<notin> fst ` set vl" and dist: "distinct (map fst vl)"
    by auto
  show ?case
  proof (cases "(i, spec) = (j, sp)")
    case True
    with m Cons.prems(4) [of st dv s1 r] have r: "r = Some v" by simp
    with Cons.prems(1) m a
    have "map_variables data dt tzl vl s1 v (AList.update j v vars) = Inr (st', dv', vars')"
      by (simp add: loop_eval)
    from map_variables_untouched [OF this jv] True show ?thesis
      by (simp add: update_conv')
  next
    case False
    with Cons.prems(2) a have mem: "(i, spec) \<in> set vl" by auto
    have step: "\<And>s d s2 r. keeps s1 s \<Longrightarrow> map_variable s data dt tzl i spec d = Inr (s2, r)
           \<Longrightarrow> r = Some v"
      using Cons.prems(4) k1 keeps_trans by blast
    show ?thesis
    proof (cases r)
      case None
      with Cons.prems(1) m a
      have "map_variables data dt tzl vl s1 dv vars = Inr (st', dv', vars')"
        by (simp add: loop_eval)
      from Cons.IH [OF this mem dist step] show ?thesis .
    next
      case (Some dv1)
      with Cons.prems(1) m a
      have "map_variables data dt tzl vl s1 dv1 (AList.update j dv1 vars) = Inr (st', dv', vars')"
        by (simp add: loop_eval)
      from Cons.IH [OF this mem dist step] show ?thesis .
    qed
  qed
qed

text \<open>The same for the whole mapper: the value it publishes for a variable of the table.\<close>

lemma update_variables_entry:
  assumes run: "update_variables c st data = Inr st'"
    and mem: "(i, spec) \<in> set (VARIABLE_LIST c)"
    and dist: "distinct (map fst (VARIABLE_LIST c))"
    and val: "\<And>s d s1 r dt tzl. mph s = mph st
                \<Longrightarrow> map_variable s data dt tzl i spec d = Inr (s1, r) \<Longrightarrow> r = Some v"
  shows "published (emitted st') i = Some v"
proof -
  from run obtain dt where dt: "js_get data ''dt'' = Inr dt"
    using update_variables_fails [of data _ c st] by (cases "js_get data ''dt''") auto
  from run obtain tz0 where tz0: "js_get data ''timezone'' = Inr tz0"
    using update_variables_fails [of data _ c st] by (cases "js_get data ''timezone''") auto
  define st2 where "st2 = st\<lparr>tz := tz0, weather := data\<rparr>"
  define tzl where "tzl = effective_offset c (cfg_tz (config st)) tz0"
  note eq = update_variables_loop [OF dt tz0, of c st, folded st2_def tzl_def]
  from run eq obtain s3 dv vars where
    loop: "map_variables data dt tzl (VARIABLE_LIST c) st2 (JStr []) [] = Inr (s3, dv, vars)"
    and st': "st' = emit (SetVariableValues vars) s3"
    by (cases "map_variables data dt tzl (VARIABLE_LIST c) st2 (JStr []) []") auto
  have "map_of vars i = Some v"
  proof (rule map_variables_entry [OF loop mem dist])
    fix s d s1 r
    assume "keeps st2 s" and m: "map_variable s data dt tzl i spec d = Inr (s1, r)"
    then have "mph s = mph st" by (simp add: keeps_def st2_def)
    from val [OF this m] show "r = Some v" .
  qed
  then show ?thesis
    by (simp add: st' published_snoc)
qed

lemma get2_number:
  assumes "get2 data k f = Inr (JNum x)"
  shows "lookup_p data k f = Inr (JNum x)"
proof -
  from assms obtain s where s: "js_get data k = Inr s" and f: "js_get s f = Inr (JNum x)"
    by (auto simp: get2_def thenE_Inr)
  from f have "truthy s" by (cases s) auto
  with s f show ?thesis by (simp add: lookup_p_def)
qed

lemma kelvinToUnit_number:
  "kelvinToUnit u (JNum k) = Inr v \<Longrightarrow>
     v = JStr (int_string (if u = ''f'' then \<lfloor>((k - 273.15) * 9) / 5 + 32.49\<rfloor>
                           else if u = ''c'' then \<lfloor>k - 273.15 + 0.49\<rfloor>
                           else \<lfloor>k + 0.49\<rfloor>) @ C_DEGREE)"
  by (auto simp: kelvinToUnit_def num_string_def thenE_Inr split: if_splits)

lemma lift_Inr: "lift st m = Inr x \<longleftrightarrow> m = Inr x"
  by (simp add: lift_def split: sum.splits)

lemma map_variable_local_temp:
  assumes "map_variable s data dt tzl i spec d = Inr (s1, r)"
    and "section_of spec = ''local''" and "i = ''c_temp'' \<or> i = ''c_feels''"
    and "get2 data ''main'' (data_of spec) = Inr (JNum k)"
  shows "r = Some (JStr (int_string (if mph s then \<lfloor>((k - 273.15) * 9) / 5 + 32.49\<rfloor>
                                     else \<lfloor>k - 273.15 + 0.49\<rfloor>) @ C_DEGREE))"
proof -
  from assms(1) obtain p where p: "lookup_p data (section_of spec) (data_of spec) = Inr p"
    by (cases "lookup_p data (section_of spec) (data_of spec)") (auto simp: map_variable_def)
  from assms(1,2,3,4) p
  have "\<exists>v. kelvinToUnit (if mph s then ''f'' else ''c'') (JNum k) = Inr v \<and> r = Some v"
    by (auto simp: map_variable_def lift_Inr thenE_Inr)
  then show ?thesis
    by (auto dest!: kelvinToUnit_number)
qed

lemma map_variable_main_temp:
  assumes "map_variable s data dt tzl i spec d = Inr (s1, r)"
    and "section_of spec = ''main''"
    and "i = ''c_tempk'' \<or> i = ''c_feelk'' \<or> i = ''c_tempc'' \<or> i = ''c_feelc''
           \<or> i = ''c_tempf'' \<or> i = ''c_feelf''"
    and "get2 data ''main'' (data_of spec) = Inr (JNum k)"
  shows "\<exists>v. kelvinToUnit (last_char i) (JNum k) = Inr v \<and> r = Some v"
proof -
  from assms(2,4) have p: "lookup_p data (section_of spec) (data_of spec) = Inr (JNum k)"
    by (simp add: get2_number)
  from assms(1,2,3) p show ?thesis
    by (auto simp: map_variable_def lift_Inr thenE_Inr)
qed

text \<open>The converter and the step of the loop return a value: for a number whose rounded
  conversion is below \<open>10^21\<close> in absolute value (the range in which JavaScript prints an
  integer in plain digits) they cannot fail.\<close>

lemma kelvinToUnit_total:
  assumes "\<bar>if u = ''f'' then \<lfloor>((k - 273.15) * 9) / 5 + 32.49\<rfloor>
            else if u = ''c'' then \<lfloor>k - 273.15 + 0.49\<rfloor>
                else \<lfloor>k + 0.49\<rfloor>\<bar> < 10 ^ 21"
  shows "kelvinToUnit u (JNum k) =
           Inr (JStr (int_string (if u = ''f'' then \<lfloor>((k - 273.15) * 9) / 5 + 32.49\<rfloor>
                                  else if u = ''c'' then \<lfloor>k - 273.15 + 0.49\<rfloor>
                                  else \<lfloor>k + 0.49\<rfloor>) @ C_DEGREE))"
  using assms by (simp add: kelvinToUnit_def num_string_def)

lemma js_get_defined: "js_get d k = Inr x \<Longrightarrow> \<exists>y. js_get d k' = Inr y"
  by (cases d) auto

lemma lookup_p_total:
  assumes "js_get data k0 = Inr x"
  shows "\<exists>p. lookup_p data k f = Inr p"
proof -
  from js_get_defined [OF assms] obtain s where s: "js_get data k = Inr s" by blast
  from js_get_defined [OF assms] obtain y where y: "js_get data f = Inr y" by blast
  show ?thesis
  proof (cases "truthy s")
    case True
    then obtain z where "js_get s f = Inr z" by (cases s) auto
    with s True show ?thesis by (simp add: lookup_p_def)
  next
    case False
    with s y show ?thesis by (simp add: lookup_p_def)
  qed
qed

lemma get2_defined: "get2 data k f = Inr x \<Longrightarrow> \<exists>s. js_get data k = Inr s"
  by (auto simp: get2_def thenE_Inr)

lemma map_variable_local_temp_total:
  assumes sec: "section_of spec = ''local''" and i: "i = ''c_temp'' \<or> i = ''c_feels''"
    and K: "get2 data ''main'' (data_of spec) = Inr (JNum k)"
    and b: "\<bar>if mph s then \<lfloor>((k - 273.15) * 9) / 5 + 32.49\<rfloor>
        else \<lfloor>k - 273.15 + 0.49\<rfloor>\<bar> < 10 ^ 21"
  shows "map_variable s data dt tzl i spec d =
           Inr (s, Some
               (JStr (int_string (if mph s then \<lfloor>((k - 273.15) * 9) / 5 + 32.49\<rfloor>
                                           else \<lfloor>k - 273.15 + 0.49\<rfloor>) @ C_DEGREE)))"
proof -
  from get2_defined [OF K] obtain m where "js_get data ''main'' = Inr m" by blast
  from lookup_p_total [OF this] obtain p where
    p: "lookup_p data (section_of spec) (data_of spec) = Inr p" by blast
  from b have "kelvinToUnit (if mph s then ''f'' else ''c'') (JNum k) =
      Inr (JStr (int_string (if mph s then \<lfloor>((k - 273.15) * 9) / 5 + 32.49\<rfloor>
                             else \<lfloor>k - 273.15 + 0.49\<rfloor>) @ C_DEGREE))"
    using kelvinToUnit_total [of "if mph s then ''f'' else ''c''" k] by (simp split: if_splits)
  with sec K p show ?thesis
    using i by (elim disjE) (simp_all add: map_variable_def lift_def)
qed

lemma map_variable_main_temp_total:
  assumes sec: "section_of spec = ''main''"
    and i: "i = ''c_tempk'' \<or> i = ''c_feelk'' \<or> i = ''c_tempc'' \<or> i = ''c_feelc''
           \<or> i = ''c_tempf'' \<or> i = ''c_feelf''"
    and K: "get2 data ''main'' (data_of spec) = Inr (JNum k)"
    and b: "\<bar>if last_char i = ''f'' then \<lfloor>((k - 273.15) * 9) / 5 + 32.49\<rfloor>
             else if last_char i = ''c'' then \<lfloor>k - 273.15 + 0.49\<rfloor>
                 else \<lfloor>k + 0.49\<rfloor>\<bar> < 10 ^ 21"
  shows "map_variable s data dt tzl i spec d =
           Inr (s, Some (JStr (int_string
                  (if last_char i = ''f'' then \<lfloor>((k - 273.15) * 9) / 5 + 32.49\<rfloor>
                   else if last_char i = ''c'' then \<lfloor>k - 273.15 + 0.49\<rfloor>
                   else \<lfloor>k + 0.49\<rfloor>) @ C_DEGREE)))"
proof -
  from sec K have p: "lookup_p data (section_of spec) (data_of spec) = Inr (JNum k)"
    by (simp add: get2_number)
  note kelvinToUnit_total [OF b]
  with sec p show ?thesis
    using i by (elim disjE) (simp_all add: map_variable_def lift_def)
qed

lemma floor_range:
  assumes "\<bar>x :: real\<bar> \<le> 10 ^ 21 - 1"
  shows "\<bar>\<lfloor>x\<rfloor>\<bar> < 10 ^ 21"
proof -
  have "real_of_int \<lfloor>x\<rfloor> \<le> x" "x < real_of_int \<lfloor>x\<rfloor> + 1" by linarith+
  with assms have "\<bar>real_of_int \<lfloor>x\<rfloor>\<bar> < 10 ^ 21" by linarith
  then have "real_of_int \<bar>\<lfloor>x\<rfloor>\<bar> < 10 ^ 21" by simp
  then show ?thesis by simp
qed

section \<open>Evaluating the sample installation\<close>

lemmas value_defs = lift_def get2_def lookup_p_def last_char_def
  num_string_def int_string_def js_trunc_def js_rem_def C_DEGREE_def C_WINDIR_def
  kelvinToUnit_def hpaToUnit_def speedToUnit_def windir_index_def windir_def
  is_day_def shifted_def

lemmas op_defs = emit_def init_vars_def update_localtimes_def template_def weather_url_def
  refresh_def pulse_def icon_url_def update_graphic_def icon_response_def request_error_def
  map_variable_def effective_offset_def update_variables_def weather_response_def
  destroy_def init_connection_def client_error_def configUpdated_def init_def

lemmas sample_defs = sample_constants_def sample_config_def sample_document_def
  sample_envelope_def sample_refusal_def new_instance_def

lemma sample_times:
  "setTime 1700000000000 = Inr 1700000000000"
  "setTime 1700003660000 = Inr 1700003660000"
  by (simp_all add: setTime_def js_trunc_def)

lemma sample_clock:
  "toMMDD_HHMM 1700000000000 = ''11-14 22:13''" "toHHMM 1700000000000 = ''22:13''"
  "toMMDD_HHMM 1700003660000 = ''11-14 23:14''" "toHHMM 1700003660000 = ''23:14''"
  by code_simp+

lemma sample_started_eq:
  "sample_started =
     \<lparr>config = sample_config,
      weather = JObj [(''location'', JObj []), (''current'', JObj []), (''forecast'', JObj [])],
      update = 1200000, lastPolled = 1700000000000, icons = [], iconID = [], mph = True,
      hasError = False, tz = JNum 0, isDay = JUndef, client = Some True, heartbeat = True,
      emitted =
        [SetVariableDefinitions (map (\<lambda>(i, s). (i, description_of s)) (VARIABLE_LIST sample_constants)),
         SetFeedbackDefinitions, SetPresetDefinitions, SetActionDefinitions,
         UpdateStatus StatusConnecting JUndef,
         HttpGet WeatherPoll (weather_url sample_constants sample_config),
         SetVariableValues [(''l_localtime'', JStr ''11-14 22:13''), (''l_time'', JStr ''22:13'')]]\<rparr>"
  by (simp add: sample_started_def op_defs sample_defs sample_times sample_clock Let_def)

lemma sample_mapping:
  "\<exists>st'. update_variables sample_constants
           (emit (UpdateStatus StatusOk (JStr ''Connected'')) sample_started)
           (sample_document 300.15 deg) = Inr st'"
  by (simp add: sample_started_eq op_defs lift_def get2_def lookup_p_def last_char_def
        num_string_def int_string_def C_DEGREE_def kelvinToUnit_def is_day_def shifted_def
        loop_eval sample_defs sample_times sample_clock Let_def)

text \<open>The mapper completes on the sample document at every temperature up to \<open>10^20\<close>.\<close>

lemma sample_range:
  assumes "\<bar>k :: real\<bar> \<le> 10 ^ 20"
  shows "\<bar>\<lfloor>((k - 273.15) * 9) / 5 + 32.49\<rfloor>\<bar> < 10 ^ 21"
    and "\<bar>\<lfloor>k - 273.15 + 0.49\<rfloor>\<bar> < 10 ^ 21"
    and "\<bar>\<lfloor>k + 0.49\<rfloor>\<bar> < 10 ^ 21"
proof -
  from assms have a: "k \<le> 10 ^ 20" "- (10 ^ 20) \<le> k" by linarith+
  then show "\<bar>\<lfloor>((k - 273.15) * 9) / 5 + 32.49\<rfloor>\<bar> < 10 ^ 21"
    by (intro floor_range) (simp add: abs_le_iff field_simps)
  from a show "\<bar>\<lfloor>k - 273.15 + 0.49\<rfloor>\<bar> < 10 ^ 21"
    by (intro floor_range) (simp add: abs_le_iff field_simps)
  from a show "\<bar>\<lfloor>k + 0.49\<rfloor>\<bar> < 10 ^ 21"
    by (intro floor_range) (simp add: abs_le_iff field_simps)
qed

lemma sample_mapping_range:
  assumes "\<bar>k\<bar> \<le> 10 ^ 20"
  shows "\<exists>st'. update_variables sample_constants
           (emit (UpdateStatus StatusOk (JStr ''Connected'')) sample_started)
           (sample_document k deg) = Inr st'"
  using sample_range [OF assms]
  by (simp add: sample_started_eq op_defs lift_def get2_def lookup_p_def last_char_def
        num_string_def int_string_def C_DEGREE_def kelvinToUnit_def is_day_def shifted_def
        loop_eval sample_defs sample_times sample_clock Let_def)

lemma sample_response:
  "\<exists>st'. update_variables sample_constants
           (emit (UpdateStatus StatusOk (JStr ''Connected'')) sample_started)
           (sample_document 300.15 deg) = Inr st' \<and>
         step sample_constants sample_started (WeatherResponse (sample_document 300.15 deg) 200)
           = st'"
  using sample_mapping [of deg] by (auto simp: weather_response_def sample_document_def)

section \<open>Temperatures\<close>

text \<open>
  C1. Take a document whose \<^verbatim>\<open>main\<close> object holds the number \<open>K\<close> in the field a temperature
  variable of the table reads, and write \<open>F = floor ((K - 273.15) * 9 / 5 + 32.49)\<close>,
  \<open>C = floor (K - 273.15 + 0.49)\<close> and \<open>K' = floor (K + 0.49)\<close>. The variables \<^verbatim>\<open>c_temp\<close> and
  \<^verbatim>\<open>c_feels\<close> under imperial units and \<^verbatim>\<open>c_tempf\<close> and \<^verbatim>\<open>c_feelf\<close> take \<open>F\<close>, \<^verbatim>\<open>c_temp\<close> and
  \<^verbatim>\<open>c_feels\<close> under metric units and \<^verbatim>\<open>c_tempc\<close> and \<^verbatim>\<open>c_feelc\<close> take \<open>C\<close>, and \<^verbatim>\<open>c_tempk\<close> and
  \<^verbatim>\<open>c_feelk\<close> take \<open>K'\<close>, each followed by the degree character. For each of them, when the
  integer is below \<open>10^21\<close> in absolute value, the step of the mapper's loop for the variable
  returns that string and leaves the state as it is; and whenever the mapper completes on the
  document, the value published for the variable is that string. The converter itself,
  \<^verbatim>\<open>kelvinToUnit\<close>, returns the string for each of the units \<^verbatim>\<open>f\<close>, \<^verbatim>\<open>c\<close> and \<^verbatim>\<open>k\<close> under the same
  bound.
\<close>

theorem kelvin_variables:
  assumes dist: "distinct (map fst (VARIABLE_LIST c))"
    and mem: "(i, spec) \<in> set (VARIABLE_LIST c)"
    and K: "get2 data ''main'' (data_of spec) = Inr (JNum K)"
  shows
    "(section_of spec = ''local'' \<and> (i = ''c_temp'' \<or> i = ''c_feels'') \<and> mph st
        \<or> section_of spec = ''main'' \<and> (i = ''c_tempf'' \<or> i = ''c_feelf'')
      \<longrightarrow> (\<bar>\<lfloor>((K - 273.15) * 9) / 5 + 32.49\<rfloor>\<bar> < 10 ^ 21
              \<longrightarrow> map_variable st data dt tzl i spec dv
                  = Inr (st, Some
                      (JStr (int_string \<lfloor>((K - 273.15) * 9) / 5 + 32.49\<rfloor> @ C_DEGREE)))) \<and>
          (update_variables c st data = Inr st'
              \<longrightarrow> published (emitted st') i = Some
                  (JStr (int_string \<lfloor>((K - 273.15) * 9) / 5 + 32.49\<rfloor> @ C_DEGREE))))
     \<and> (section_of spec = ''local'' \<and> (i = ''c_temp'' \<or> i = ''c_feels'') \<and> \<not> mph st
        \<or> section_of spec = ''main'' \<and> (i = ''c_tempc'' \<or> i = ''c_feelc'')
      \<longrightarrow> (\<bar>\<lfloor>K - 273.15 + 0.49\<rfloor>\<bar> < 10 ^ 21
              \<longrightarrow> map_variable st data dt tzl i spec dv
                  = Inr (st, Some
                      (JStr (int_string \<lfloor>K - 273.15 + 0.49\<rfloor> @ C_DEGREE)))) \<and>
          (update_variables c st data = Inr st'
              \<longrightarrow> published (emitted st') i = Some
                  (JStr (int_string \<lfloor>K - 273.15 + 0.49\<rfloor> @ C_DEGREE))))
     \<and> (section_of spec = ''main'' \<and> (i = ''c_tempk'' \<or> i = ''c_feelk'')
      \<longrightarrow> (\<bar>\<lfloor>K + 0.49\<rfloor>\<bar> < 10 ^ 21
              \<longrightarrow> map_variable st data dt tzl i spec dv
                  = Inr (st, Some (JStr (int_string \<lfloor>K + 0.49\<rfloor> @ C_DEGREE)))) \<and>
          (update_variables c st data = Inr st'
              \<longrightarrow> published (emitted st') i = Some
                  (JStr (int_string \<lfloor>K + 0.49\<rfloor> @ C_DEGREE))))
     \<and> (\<bar>\<lfloor>((K - 273.15) * 9) / 5 + 32.49\<rfloor>\<bar> < 10 ^ 21
          \<longrightarrow> kelvinToUnit ''f'' (JNum K)
                = Inr (JStr (int_string \<lfloor>((K - 273.15) * 9) / 5 + 32.49\<rfloor> @ C_DEGREE)))
     \<and> (\<bar>\<lfloor>K - 273.15 + 0.49\<rfloor>\<bar> < 10 ^ 21
          \<longrightarrow> kelvinToUnit ''c'' (JNum K)
                = Inr (JStr (int_string \<lfloor>K - 273.15 + 0.49\<rfloor> @ C_DEGREE)))
     \<and> (\<bar>\<lfloor>K + 0.49\<rfloor>\<bar> < 10 ^ 21
          \<longrightarrow> kelvinToUnit ''k'' (JNum K)
                = Inr (JStr (int_string \<lfloor>K + 0.49\<rfloor> @ C_DEGREE)))"
proof -
  have ploc: "published (emitted st') i =
      Some (JStr (int_string (if mph st then \<lfloor>((K - 273.15) * 9) / 5 + 32.49\<rfloor>
                              else \<lfloor>K - 273.15 + 0.49\<rfloor>) @ C_DEGREE))"
    if "section_of spec = ''local''" and "i = ''c_temp'' \<or> i = ''c_feels''"
      and run: "update_variables c st data = Inr st'"
  proof (rule update_variables_entry [OF run mem dist])
    fix s d s1 r dt tzl
    assume "mph s = mph st" and "map_variable s data dt tzl i spec d = Inr (s1, r)"
    with map_variable_local_temp [OF _ that(1,2) K, of s dt tzl d s1 r]
    show "r = Some
        (JStr (int_string (if mph st then \<lfloor>((K - 273.15) * 9) / 5 + 32.49\<rfloor>
                              else \<lfloor>K - 273.15 + 0.49\<rfloor>) @ C_DEGREE))"
      by simp
  qed
  have pmain: "published (emitted st') i =
      Some (JStr (int_string (if last_char i = ''f'' then \<lfloor>((K - 273.15) * 9) / 5 + 32.49\<rfloor>
                              else if last_char i = ''c'' then \<lfloor>K - 273.15 + 0.49\<rfloor>
                              else \<lfloor>K + 0.49\<rfloor>) @ C_DEGREE))"
    if "section_of spec = ''main''"
      and "i = ''c_tempk'' \<or> i = ''c_feelk'' \<or> i = ''c_tempc'' \<or> i = ''c_feelc''
           \<or> i = ''c_tempf'' \<or> i = ''c_feelf''"
      and run: "update_variables c st data = Inr st'"
  proof (rule update_variables_entry [OF run mem dist])
    fix s d s1 r dt tzl
    assume "mph s = mph st" and "map_variable s data dt tzl i spec d = Inr (s1, r)"
    from map_variable_main_temp [OF this(2) that(1,2) K]
    show "r = Some (JStr (int_string
              (if last_char i = ''f'' then \<lfloor>((K - 273.15) * 9) / 5 + 32.49\<rfloor>
               else if last_char i = ''c'' then \<lfloor>K - 273.15 + 0.49\<rfloor>
               else \<lfloor>K + 0.49\<rfloor>) @ C_DEGREE))"
      by (auto dest!: kelvinToUnit_number)
  qed
  note lt = map_variable_local_temp_total [OF _ _ K, of i st dt tzl dv]
  note mt = map_variable_main_temp_total [OF _ _ K, of i st dt tzl dv]
  have stepF: "map_variable st data dt tzl i spec dv = Inr (st, Some
      (JStr (int_string \<lfloor>((K - 273.15) * 9) / 5 + 32.49\<rfloor> @ C_DEGREE)))"
    if c: "section_of spec = ''local'' \<and> (i = ''c_temp'' \<or> i = ''c_feels'') \<and> mph st
        \<or> section_of spec = ''main'' \<and> (i = ''c_tempf'' \<or> i = ''c_feelf'')"
      and b: "\<bar>\<lfloor>((K - 273.15) * 9) / 5 + 32.49\<rfloor>\<bar> < 10 ^ 21"
  proof -
    from c consider (loc) "section_of spec = ''local''" "i = ''c_temp'' \<or> i = ''c_feels''" "mph st"
      | (mn) "section_of spec = ''main''" "i = ''c_tempf'' \<or> i = ''c_feelf''"
      by blast
    then show ?thesis
    proof cases
      case loc
      from loc(3) b have "\<bar>(if mph st then \<lfloor>((K - 273.15) * 9) / 5 + 32.49\<rfloor> else \<lfloor>K - 273.15 + 0.49\<rfloor>)\<bar> < 10 ^ 21" by simp
      from lt [OF loc(1,2) this] loc(3) show ?thesis by simp
    next
      case mn
      from mn(2) have six: "i = ''c_tempk'' \<or> i = ''c_feelk'' \<or> i = ''c_tempc'' \<or> i = ''c_feelc''
           \<or> i = ''c_tempf'' \<or> i = ''c_feelf''" by blast
      from mn(2) have u: "last_char i = ''f''" by (auto simp: last_char_def)
      from u b have "\<bar>(if last_char i = ''f'' then \<lfloor>((K - 273.15) * 9) / 5 + 32.49\<rfloor> else if last_char i = ''c'' then \<lfloor>K - 273.15 + 0.49\<rfloor> else \<lfloor>K + 0.49\<rfloor>)\<bar> < 10 ^ 21" by simp
      from mt [OF mn(1) six this] u show ?thesis by simp
    qed
  qed
  have pubF: "published (emitted st') i = Some
      (JStr (int_string \<lfloor>((K - 273.15) * 9) / 5 + 32.49\<rfloor> @ C_DEGREE))"
    if c: "section_of spec = ''local'' \<and> (i = ''c_temp'' \<or> i = ''c_feels'') \<and> mph st
        \<or> section_of spec = ''main'' \<and> (i = ''c_tempf'' \<or> i = ''c_feelf'')"
      and run: "update_variables c st data = Inr st'"
  proof -
    from c consider (loc) "section_of spec = ''local''" "i = ''c_temp'' \<or> i = ''c_feels''" "mph st"
      | (mn) "section_of spec = ''main''" "i = ''c_tempf'' \<or> i = ''c_feelf''"
      by blast
    then show ?thesis
    proof cases
      case loc
      from ploc [OF loc(1,2) run] loc(3) show ?thesis by simp
    next
      case mn
      from mn(2) have six: "i = ''c_tempk'' \<or> i = ''c_feelk'' \<or> i = ''c_tempc'' \<or> i = ''c_feelc''
           \<or> i = ''c_tempf'' \<or> i = ''c_feelf''" by blast
      from mn(2) have u: "last_char i = ''f''" by (auto simp: last_char_def)
      from pmain [OF mn(1) six run] u show ?thesis by simp
    qed
  qed
  have stepC: "map_variable st data dt tzl i spec dv = Inr (st, Some
      (JStr (int_string \<lfloor>K - 273.15 + 0.49\<rfloor> @ C_DEGREE)))"
    if c: "section_of spec = ''local'' \<and> (i = ''c_temp'' \<or> i = ''c_feels'') \<and> \<not> mph st
        \<or> section_of spec = ''main'' \<and> (i = ''c_tempc'' \<or> i = ''c_feelc'')"
      and b: "\<bar>\<lfloor>K - 273.15 + 0.49\<rfloor>\<bar> < 10 ^ 21"
  proof -
    from c consider (loc) "section_of spec = ''local''" "i = ''c_temp'' \<or> i = ''c_feels''" "\<not> mph st"
      | (mn) "section_of spec = ''main''" "i = ''c_tempc'' \<or> i = ''c_feelc''"
      by blast
    then show ?thesis
    proof cases
      case loc
      from loc(3) b have "\<bar>(if mph st then \<lfloor>((K - 273.15) * 9) / 5 + 32.49\<rfloor> else \<lfloor>K - 273.15 + 0.49\<rfloor>)\<bar> < 10 ^ 21" by simp
      from lt [OF loc(1,2) this] loc(3) show ?thesis by simp
    next
      case mn
      from mn(2) have six: "i = ''c_tempk'' \<or> i = ''c_feelk'' \<or> i = ''c_tempc'' \<or> i = ''c_feelc''
           \<or> i = ''c_tempf'' \<or> i = ''c_feelf''" by blast
      from mn(2) have u: "last_char i = ''c''" by (auto simp: last_char_def)
      from u b have "\<bar>(if last_char i = ''f'' then \<lfloor>((K - 273.15) * 9) / 5 + 32.49\<rfloor> else if last_char i = ''c'' then \<lfloor>K - 273.15 + 0.49\<rfloor> else \<lfloor>K + 0.49\<rfloor>)\<bar> < 10 ^ 21" by simp
      from mt [OF mn(1) six this] u show ?thesis by simp
    qed
  qed
  have pubC: "published (emitted st') i = Some
      (JStr (int_string \<lfloor>K - 273.15 + 0.49\<rfloor> @ C_DEGREE))"
    if c: "section_of spec = ''local'' \<and> (i = ''c_temp'' \<or> i = ''c_feels'') \<and> \<not> mph st
        \<or> section_of spec = ''main'' \<and> (i = ''c_tempc'' \<or> i = ''c_feelc'')"
      and run: "update_variables c st data = Inr st'"
  proof -
    from c consider (loc) "section_of spec = ''local''" "i = ''c_temp'' \<or> i = ''c_feels''" "\<not> mph st"
      | (mn) "section_of spec = ''main''" "i = ''c_tempc'' \<or> i = ''c_feelc''"
      by blast
    then show ?thesis
    proof cases
      case loc
      from ploc [OF loc(1,2) run] loc(3) show ?thesis by simp
    next
      case mn
      from mn(2) have six: "i = ''c_tempk'' \<or> i = ''c_feelk'' \<or> i = ''c_tempc'' \<or> i = ''c_feelc''
           \<or> i = ''c_tempf'' \<or> i = ''c_feelf''" by blast
      from mn(2) have u: "last_char i = ''c''" by (auto simp: last_char_def)
      from pmain [OF mn(1) six run] u show ?thesis by simp
    qed
  qed
  have stepK: "map_variable st data dt tzl i spec dv = Inr (st, Some
      (JStr (int_string \<lfloor>K + 0.49\<rfloor> @ C_DEGREE)))"
    if c: "section_of spec = ''main'' \<and> (i = ''c_tempk'' \<or> i = ''c_feelk'')"
      and b: "\<bar>\<lfloor>K + 0.49\<rfloor>\<bar> < 10 ^ 21"
  proof -
    from c consider (mn) "section_of spec = ''main''" "i = ''c_tempk'' \<or> i = ''c_feelk''"
      by blast
    then show ?thesis
    proof cases
      case mn
      from mn(2) have six: "i = ''c_tempk'' \<or> i = ''c_feelk'' \<or> i = ''c_tempc'' \<or> i = ''c_feelc''
           \<or> i = ''c_tempf'' \<or> i = ''c_feelf''" by blast
      from mn(2) have u: "last_char i = ''k''" by (auto simp: last_char_def)
      from u b have "\<bar>(if last_char i = ''f'' then \<lfloor>((K - 273.15) * 9) / 5 + 32.49\<rfloor> else if last_char i = ''c'' then \<lfloor>K - 273.15 + 0.49\<rfloor> else \<lfloor>K + 0.49\<rfloor>)\<bar> < 10 ^ 21" by simp
      from mt [OF mn(1) six this] u show ?thesis by simp
    qed
  qed
  have pubK: "published (emitted st') i = Some
      (JStr (int_string \<lfloor>K + 0.49\<rfloor> @ C_DEGREE))"
    if c: "section_of spec = ''main'' \<and> (i = ''c_tempk'' \<or> i = ''c_feelk'')"
      and run: "update_variables c st data = Inr st'"
  proof -
    from c consider (mn) "section_of spec = ''main''" "i = ''c_tempk'' \<or> i = ''c_feelk''"
      by blast
    then show ?thesis
    proof cases
      case mn
      from mn(2) have six: "i = ''c_tempk'' \<or> i = ''c_feelk'' \<or> i = ''c_tempc'' \<or> i = ''c_feelc''
           \<or> i = ''c_tempf'' \<or> i = ''c_feelf''" by blast
      from mn(2) have u: "last_char i = ''k''" by (auto simp: last_char_def)
      from pmain [OF mn(1) six run] u show ?thesis by simp
    qed
  qed
  have convF: "kelvinToUnit ''f'' (JNum K) = Inr
      (JStr (int_string \<lfloor>((K - 273.15) * 9) / 5 + 32.49\<rfloor> @ C_DEGREE))"
          if "\<bar>\<lfloor>((K - 273.15) * 9) / 5 + 32.49\<rfloor>\<bar> < 10 ^ 21"
    using kelvinToUnit_total [of "''f''" K] that by simp
  have convC: "kelvinToUnit ''c'' (JNum K) = Inr
      (JStr (int_string \<lfloor>K - 273.15 + 0.49\<rfloor> @ C_DEGREE))"
          if "\<bar>\<lfloor>K - 273.15 + 0.49\<rfloor>\<bar> < 10 ^ 21"
    using kelvinToUnit_total [of "''c''" K] that by simp
  have convK: "kelvinToUnit ''k'' (JNum K) = Inr
      (JStr (int_string \<lfloor>K + 0.49\<rfloor> @ C_DEGREE))"
          if "\<bar>\<lfloor>K + 0.49\<rfloor>\<bar> < 10 ^ 21"
    using kelvinToUnit_total [of "''k''" K] that by simp
  show ?thesis
    by (intro conjI impI;
        (rule stepF pubF stepC pubC stepK pubK convF convC convK; assumption))
qed

text \<open>
  The scenario of the specification: under imperial units the document with
  \<^verbatim>\<open>main.temp = 300.15\<close> gives \<^verbatim>\<open>c_temp\<close> the value \<open>81\<close> with the degree character. The
  converter gives 32 degrees Fahrenheit at 273.15 K and 100 degrees Celsius at 373.15 K.
\<close>

theorem kelvin_variables_witness:
  "mph sample_started \<and>
   published (emitted (step sample_constants sample_started
                         (WeatherResponse (sample_document 300.15 180) 200))) ''c_temp''
     = Some (JStr [CHR ''8'', CHR ''1'', CHR 0xB0]) \<and>
   kelvinToUnit ''f'' (JNum 273.15) = Inr (JStr [CHR ''3'', CHR ''2'', CHR 0xB0]) \<and>
   kelvinToUnit ''c'' (JNum 373.15) = Inr (JStr [CHR ''1'', CHR ''0'', CHR ''0'', CHR 0xB0])"
proof -
  let ?st = "emit (UpdateStatus StatusOk (JStr ''Connected'')) sample_started"
  let ?doc = "sample_document 300.15 180"
  let ?spec = "\<lparr>description_of = ''Temperature'', section_of = ''local'', data_of = ''temp''\<rparr>"
  obtain st' where run: "update_variables sample_constants ?st ?doc = Inr st'"
    and resp: "step sample_constants sample_started (WeatherResponse ?doc 200) = st'"
    using sample_response by blast
  have mph: "mph ?st" by (simp add: sample_started_eq)
  have dist: "distinct (map fst (VARIABLE_LIST sample_constants))"
    by (simp add: sample_constants_def)
  have mem: "(''c_temp'', ?spec) \<in> set (VARIABLE_LIST sample_constants)"
    by (simp add: sample_constants_def)
  have K: "get2 (sample_document k d) ''main'' (data_of ?spec) = Inr (JNum k)" for k d
    by (simp add: get2_def sample_document_def)
  have fl: "int_string \<lfloor>(((300.15::real) - 273.15) * 9) / 5 + 32.49\<rfloor> = ''81''"
    "int_string \<lfloor>(((273.15::real) - 273.15) * 9) / 5 + 32.49\<rfloor> = ''32''"
    "int_string \<lfloor>(373.15::real) - 273.15 + 0.49\<rfloor> = ''100''"
    by (simp_all add: int_string_def nat_digits.simps)
  from kelvin_variables [OF dist mem K [of "300.15" 180], where st = ?st and st' = st'] run mph fl(1)
  have "published (emitted st') ''c_temp'' = Some (JStr (''81'' @ C_DEGREE))"
    by simp
  then have "published (emitted st') ''c_temp'' = Some (JStr [CHR ''8'', CHR ''1'', CHR 0xB0])"
    by (simp add: C_DEGREE_def)
  then have 1: "published (emitted (step sample_constants sample_started
                         (WeatherResponse ?doc 200))) ''c_temp''
     = Some (JStr [CHR ''8'', CHR ''1'', CHR 0xB0])"
    unfolding resp .
  from kelvin_variables [OF dist mem K [of "273.15" 180]] fl(2)
  have 2: "kelvinToUnit ''f'' (JNum 273.15) = Inr (JStr [CHR ''3'', CHR ''2'', CHR 0xB0])"
    by (simp add: C_DEGREE_def)
  from kelvin_variables [OF dist mem K [of "373.15" 180]] fl(3)
  have 3: "kelvinToUnit ''c'' (JNum 373.15) =
             Inr (JStr [CHR ''1'', CHR ''0'', CHR ''0'', CHR 0xB0])"
    by (simp add: C_DEGREE_def)
  have "mph sample_started" by (simp add: sample_started_eq)
  with 1 2 3 show ?thesis by (intro conjI)
qed

section \<open>The compass\<close>







lemma sample_table:
  "distinct (map fst (VARIABLE_LIST sample_constants))"
  "(''c_winddir'',
      \<lparr>description_of = ''Wind direction'', section_of = ''internal'', data_of = []\<rparr>)
     \<in> set (VARIABLE_LIST sample_constants)"
  by (simp_all add: sample_constants_def)



section \<open>The schedule\<close>

text \<open>What each operation does to the latch, to the time of the last poll and to the number
  of weather requests.\<close>

lemma refresh_schedule:
  "hasError (settle (refresh c st now)) = hasError st"
  "lastPolled (settle (refresh c st now)) =
     (if \<not> hasError st \<and> lastPolled st + 60000 \<le> now then now else lastPolled st)"
  "fetches WeatherPoll (emitted (settle (refresh c st now))) =
     fetches WeatherPoll (emitted st) +
     (if \<not> hasError st \<and> lastPolled st + 60000 \<le> now \<and> client st \<noteq> None then 1 else 0)"
  by (auto simp: refresh_def Let_def split: option.splits)

lemma refresh_frame:
  "client (settle (refresh c st now)) = client st"
  "heartbeat (settle (refresh c st now)) = heartbeat st"
  "update (settle (refresh c st now)) = update st"
  "config (settle (refresh c st now)) = config st"
  "tz (settle (refresh c st now)) = tz st"
  "icons (settle (refresh c st now)) = icons st"
  "iconID (settle (refresh c st now)) = iconID st"
  by (auto simp: refresh_def Let_def split: option.splits)

lemma update_localtimes_cases:
  "settle (update_localtimes st now) = st \<or>
   (\<exists>vs. settle (update_localtimes st now) = emit (SetVariableValues vs) st)"
  by (auto simp: update_localtimes_def split: sum.splits)

lemma update_localtimes_schedule:
  "hasError (settle (update_localtimes st now)) = hasError st"
  "lastPolled (settle (update_localtimes st now)) = lastPolled st"
  "fetches r (emitted (settle (update_localtimes st now))) = fetches r (emitted st)"
  "client (settle (update_localtimes st now)) = client st"
  "heartbeat (settle (update_localtimes st now)) = heartbeat st"
  "update (settle (update_localtimes st now)) = update st"
  "config (settle (update_localtimes st now)) = config st"
  "tz (settle (update_localtimes st now)) = tz st"
  "icons (settle (update_localtimes st now)) = icons st"
  "iconID (settle (update_localtimes st now)) = iconID st"
  using update_localtimes_cases [of st now] by auto

lemma settle_then_localtimes:
  "settle (case r of Inl e \<Rightarrow> Inl e | Inr st1 \<Rightarrow> update_localtimes st1 now) =
     (case r of Inl (e, s) \<Rightarrow> s | Inr st1 \<Rightarrow> settle (update_localtimes st1 now))"
  by (auto split: sum.splits)

lemma pulse_settle:
  "settle (pulse c st now) = settle (refresh c st now) \<or>
   settle (pulse c st now) = settle (update_localtimes (settle (refresh c st now)) now) \<or>
   lastPolled st + update st - now > 0 \<and> settle (pulse c st now) = settle (update_localtimes st now)"
  by (cases "refresh c st now") (auto simp: pulse_def Let_def)

lemma pulse_schedule:
  "hasError (settle (pulse c st now)) = hasError st"
  "lastPolled (settle (pulse c st now)) =
     (if lastPolled st + update st - now \<le> 0 \<and> \<not> hasError st \<and> lastPolled st + 60000 \<le> now
      then now else lastPolled st)"
  "fetches WeatherPoll (emitted (settle (pulse c st now))) =
     fetches WeatherPoll (emitted st) +
     (if lastPolled st + update st - now \<le> 0 \<and> \<not> hasError st \<and> lastPolled st + 60000 \<le> now
         \<and> client st \<noteq> None then 1 else 0)"
proof -
  show "hasError (settle (pulse c st now)) = hasError st"
    using pulse_settle [of c st now]
    by (auto simp: refresh_schedule update_localtimes_schedule)
  show "lastPolled (settle (pulse c st now)) =
     (if lastPolled st + update st - now \<le> 0 \<and> \<not> hasError st \<and> lastPolled st + 60000 \<le> now
      then now else lastPolled st)"
    by (cases "refresh c st now")
       (auto simp: pulse_def Let_def update_localtimes_schedule refresh_def split: option.splits if_splits)
  show "fetches WeatherPoll (emitted (settle (pulse c st now))) =
     fetches WeatherPoll (emitted st) +
     (if lastPolled st + update st - now \<le> 0 \<and> \<not> hasError st \<and> lastPolled st + 60000 \<le> now
         \<and> client st \<noteq> None then 1 else 0)"
    by (cases "refresh c st now")
       (auto simp: pulse_def Let_def update_localtimes_schedule refresh_def split: option.splits if_splits)
qed

lemma init_vars_fields [simp]:
  "hasError (init_vars c st) = False" "lastPolled (init_vars c st) = 0"
  "icons (init_vars c st) = []" "iconID (init_vars c st) = []"
  "tz (init_vars c st) = JNum 0"
  "update (init_vars c st) = cfg_refresh (config st) * 60000"
  "mph (init_vars c st) = (''i'' = cfg_units (config st))"
  "config (init_vars c st) = config st" "client (init_vars c st) = client st"
  "heartbeat (init_vars c st) = heartbeat st" "isDay (init_vars c st) = isDay st"
  "weather (init_vars c st) =
     JObj [(''location'', JObj []), (''current'', JObj []), (''forecast'', JObj [])]"
  "emitted (init_vars c st) =
     emitted st @ [SetVariableDefinitions (map (\<lambda>(i, s). (i, description_of s)) (VARIABLE_LIST c))]"
  by (simp_all add: init_vars_def)

lemma init_connection_schedule:
  "hasError (settle (init_connection c st now)) = hasError st"
  "lastPolled (settle (init_connection c st now)) =
     (if key_ok (config st) \<and> \<not> hasError st \<and> lastPolled st + 60000 \<le> now
      then now else lastPolled st)"
  "fetches WeatherPoll (emitted (settle (init_connection c st now))) =
     fetches WeatherPoll (emitted st) +
     (if key_ok (config st) \<and> \<not> hasError st \<and> lastPolled st + 60000 \<le> now then 1 else 0)"
  by (auto simp: init_connection_def Let_def key_ok_def settle_then_localtimes
        refresh_def update_localtimes_schedule split: sum.splits option.splits)

lemma destroy_fields [simp]:
  "hasError (destroy c st) = False" "lastPolled (destroy c st) = 0"
  "config (destroy c st) = config st"
  "fetches r (emitted (destroy c st)) = fetches r (emitted st)"
  by (simp_all add: destroy_def)

lemma configUpdated_schedule:
  "hasError (settle (configUpdated c st cfg now)) = False"
  "lastPolled (settle (configUpdated c st cfg now)) =
     (if key_ok cfg \<and> 60000 \<le> now then now else 0)"
  "fetches WeatherPoll (emitted (settle (configUpdated c st cfg now))) =
     fetches WeatherPoll (emitted st) + (if key_ok cfg \<and> 60000 \<le> now then 1 else 0)"
  by (simp_all add: configUpdated_def init_connection_schedule)

lemma init_schedule:
  "hasError (settle (init c st cfg now)) = False"
  "lastPolled (settle (init c st cfg now)) = (if key_ok cfg \<and> 60000 \<le> now then now else 0)"
  "fetches WeatherPoll (emitted (settle (init c st cfg now))) =
     fetches WeatherPoll (emitted st) + (if key_ok cfg \<and> 60000 \<le> now then 1 else 0)"
  by (simp_all add: init_def Let_def init_connection_schedule key_ok_def)

text \<open>The three ways a poll completes.\<close>

lemma weather_response_envelope:
  assumes "js_get data ''error'' = Inr err" and "truthy err"
  shows "\<exists>msg. weather_response c st data statusCode =
           Inr ((emit (UpdateStatus StatusUnknownError msg)
                   (emit (Log ''error'' msg) st))\<lparr>hasError := True\<rparr>)"
proof -
  from assms(2) obtain msg where "js_get err ''message'' = Inr msg"
    by (cases err) auto
  with assms show ?thesis
    by (intro exI [of _ msg]) (simp add: weather_response_def)
qed

lemma weather_response_ok:
  assumes "js_get data ''error'' = Inr err" and "\<not> truthy err"
  shows "weather_response c st data 200 =
           update_variables c (emit (UpdateStatus StatusOk (JStr ''Connected'')) st) data"
  using assms by (simp add: weather_response_def)

lemma weather_response_unexpected:
  assumes "unexpected data statusCode"
  shows "\<exists>msg. js_get data ''message'' = Inr msg \<and>
           weather_response c st data statusCode =
             Inr (emit (SetVariableValues [(''l_name'', msg)])
                    (init_vars c
                       (emit (UpdateStatus StatusUnknownError msg)
                          (emit (Log ''error'' msg) st))))"
proof -
  from assms obtain err where err: "js_get data ''error'' = Inr err" "\<not> truthy err"
    and code: "statusCode \<noteq> 200"
    by (auto simp: unexpected_def split: sum.splits)
  from err(1) obtain msg where "js_get data ''message'' = Inr msg"
    by (cases data) auto
  with err code show ?thesis by (simp add: weather_response_def)
qed

lemma weather_response_schedule:
  assumes "\<not> unexpected data statusCode"
  shows "hasError st \<longrightarrow> hasError (settle (weather_response c st data statusCode))"
    and "lastPolled (settle (weather_response c st data statusCode)) = lastPolled st"
    and "fetches WeatherPoll (emitted (settle (weather_response c st data statusCode))) =
           fetches WeatherPoll (emitted st)"
proof -
  let ?s = "settle (weather_response c st data statusCode)"
  have "(hasError st \<longrightarrow> hasError ?s) \<and> lastPolled ?s = lastPolled st \<and>
        fetches WeatherPoll (emitted ?s) = fetches WeatherPoll (emitted st)"
  proof (cases "js_get data ''error''")
    case (Inl e)
    then show ?thesis by (simp add: weather_response_def)
  next
    case (Inr err)
    show ?thesis
    proof (cases "truthy err")
      case True
      from weather_response_envelope [OF Inr True, of c st statusCode]
      show ?thesis by auto
    next
      case False
      with assms Inr have code: "statusCode = 200" by (simp add: unexpected_def)
      let ?st = "emit (UpdateStatus StatusOk (JStr ''Connected'')) st"
      have "keeps ?st (settle (update_variables c ?st data))"
        by (rule update_variables_keeps)
      then show ?thesis
        by (simp add: code weather_response_ok [OF Inr False] keeps_def)
    qed
  qed
  then show "hasError st \<longrightarrow> hasError ?s" and "lastPolled ?s = lastPolled st"
    and "fetches WeatherPoll (emitted ?s) = fetches WeatherPoll (emitted st)"
    by simp_all
qed

text \<open>The events.\<close>

lemma step_fetches_mono:
  "fetches WeatherPoll (emitted st) \<le> fetches WeatherPoll (emitted (step c st e))"
  "fetches WeatherPoll (emitted (step c st e)) \<le> fetches WeatherPoll (emitted st) + 1"
proof -
  have "fetches WeatherPoll (emitted st) \<le> fetches WeatherPoll (emitted (step c st e)) \<and>
        fetches WeatherPoll (emitted (step c st e)) \<le> fetches WeatherPoll (emitted st) + 1"
  proof (cases e)
    case (WeatherResponse data code)
    show ?thesis
    proof (cases "unexpected data code")
      case True
      from weather_response_unexpected [OF True, of c st] show ?thesis
        by (auto simp: WeatherResponse)
    next
      case False
      then show ?thesis
        by (simp add: WeatherResponse weather_response_schedule)
    qed
  qed (simp_all add: init_schedule configUpdated_schedule refresh_schedule pulse_schedule
         request_error_def client_error_def icon_response_def split: option.splits)
  then show "fetches WeatherPoll (emitted st) \<le> fetches WeatherPoll (emitted (step c st e))"
    and "fetches WeatherPoll (emitted (step c st e)) \<le> fetches WeatherPoll (emitted st) + 1"
    by simp_all
qed

lemma step_quiet:
  assumes "\<not> runs_init_vars e"
  shows "lastPolled st \<le> lastPolled (step c st e)"
    and "hasError st \<longrightarrow> hasError (step c st e)"
    and "hasError st \<longrightarrow>
           fetches WeatherPoll (emitted (step c st e)) = fetches WeatherPoll (emitted st)"
proof -
  have "lastPolled st \<le> lastPolled (step c st e) \<and>
        (hasError st \<longrightarrow> hasError (step c st e)) \<and>
        (hasError st \<longrightarrow>
           fetches WeatherPoll (emitted (step c st e)) = fetches WeatherPoll (emitted st))"
    using assms
    by (cases e)
       (simp_all add: refresh_schedule pulse_schedule weather_response_schedule
          request_error_def client_error_def icon_response_def split: option.splits)
  then show "lastPolled st \<le> lastPolled (step c st e)"
    and "hasError st \<longrightarrow> hasError (step c st e)"
    and "hasError st \<longrightarrow>
           fetches WeatherPoll (emitted (step c st e)) = fetches WeatherPoll (emitted st)"
    by simp_all
qed

lemma step_runs_init_vars:
  assumes "runs_init_vars e"
  shows "\<not> hasError (step c st e)"
proof (cases e)
  case (WeatherResponse data code)
  with assms have "unexpected data code" by simp
  from weather_response_unexpected [OF this, of c st] show ?thesis
    by (auto simp: WeatherResponse)
qed (use assms in \<open>simp_all add: init_schedule configUpdated_schedule\<close>)

lemma step_guarded:
  assumes "clock e = Some t" and "\<not> runs_init_vars e" and "t < lastPolled st + 60000"
  shows "fetches WeatherPoll (emitted (step c st e)) = fetches WeatherPoll (emitted st)"
  using assms by (cases e) (simp_all add: refresh_schedule pulse_schedule)

lemma step_issue_time:
  assumes "clock e = Some t"
    and "fetches WeatherPoll (emitted (step c st e)) \<noteq> fetches WeatherPoll (emitted st)"
  shows "lastPolled (step c st e) = t"
  using assms
  by (cases e)
     (auto simp: init_schedule configUpdated_schedule refresh_schedule pulse_schedule
        split: if_splits)

lemma run_snoc: "run c st (evs @ [e]) = step c (run c st evs) e"
  by (simp add: run_def)

lemma run_Nil [simp]: "run c st [] = st"
  by (simp add: run_def)

lemma run_Cons: "run c st (e # evs) = run c (step c st e) evs"
  by (simp add: run_def)

lemma run_quiet:
  assumes "\<forall>e \<in> set evs. \<not> runs_init_vars e"
  shows "lastPolled st \<le> lastPolled (run c st evs)"
    and "hasError st \<longrightarrow> hasError (run c st evs)"
    and "hasError st \<longrightarrow>
           fetches WeatherPoll (emitted (run c st evs)) = fetches WeatherPoll (emitted st)"
proof -
  have "lastPolled st \<le> lastPolled (run c st evs) \<and>
        (hasError st \<longrightarrow> hasError (run c st evs)) \<and>
        (hasError st \<longrightarrow>
           fetches WeatherPoll (emitted (run c st evs)) = fetches WeatherPoll (emitted st))"
    using assms
  proof (induction evs rule: rev_induct)
    case Nil
    show ?case by simp
  next
    case (snoc e evs)
    then have q: "\<not> runs_init_vars e" and ih:
      "lastPolled st \<le> lastPolled (run c st evs)"
      "hasError st \<longrightarrow> hasError (run c st evs)"
      "hasError st \<longrightarrow>
         fetches WeatherPoll (emitted (run c st evs)) = fetches WeatherPoll (emitted st)"
      by simp_all
    from step_quiet [OF q, of "run c st evs" c] ih show ?case
      by (auto simp: run_snoc)
  qed
  then show "lastPolled st \<le> lastPolled (run c st evs)"
    and "hasError st \<longrightarrow> hasError (run c st evs)"
    and "hasError st \<longrightarrow>
           fetches WeatherPoll (emitted (run c st evs)) = fetches WeatherPoll (emitted st)"
    by simp_all
qed

lemma issued_bounds: "issued c st e \<le> 1"
  using step_fetches_mono [where st = st and c = c and e = e] by (simp add: issued_def)

lemma issued_zero:
  "issued c st e = 0 \<longleftrightarrow>
     fetches WeatherPoll (emitted (step c st e)) = fetches WeatherPoll (emitted st)"
  using step_fetches_mono [where st = st and c = c and e = e] by (auto simp: issued_def)

lemma issued_refresh:
  "issued c st (RefreshAction now) =
     (if \<not> hasError st \<and> lastPolled st + 60000 \<le> now \<and> client st \<noteq> None then 1 else 0)"
  by (simp add: issued_def refresh_schedule)

lemma issued_tick:
  "issued c st (Tick now) =
     (if heartbeat st \<and> lastPolled st + update st - now \<le> 0 \<and> \<not> hasError st
           \<and> lastPolled st + 60000 \<le> now \<and> client st \<noteq> None then 1 else 0)"
  by (simp add: issued_def pulse_schedule)

lemma issued_configUpdated:
  "issued c st (ConfigUpdated cfg now) = (if key_ok cfg \<and> 60000 \<le> now then 1 else 0)"
  by (simp add: issued_def configUpdated_schedule)

lemma sample_facts:
  "\<not> unexpected (sample_document k d) 200" "\<not> unexpected sample_envelope code"
  "unexpected sample_refusal 401" "key_ok sample_config"
  "js_get sample_envelope ''error'' =
     Inr (JObj [(''code'', JNum 1006), (''message'', JStr ''No match'')])"
  "js_get (sample_document k d) ''error'' = Inr JUndef"
  "js_get sample_refusal ''error'' = Inr JUndef"
  by (simp_all add: unexpected_def sample_defs key_ok_def)

lemma sample_latched_eq:
  "sample_latched =
     (emit (UpdateStatus StatusUnknownError (JStr ''No match''))
        (emit (Log ''error'' (JStr ''No match'')) sample_started))\<lparr>hasError := True\<rparr>"
  by (simp add: sample_latched_def weather_response_def sample_envelope_def)

lemma sample_latched_fields:
  "hasError sample_latched" "client sample_latched = Some True" "heartbeat sample_latched"
  "config sample_latched = sample_config" "lastPolled sample_latched = 1700000000000"
  by (simp_all add: sample_latched_eq sample_started_eq)

section \<open>The guard of a poll\<close>

text \<open>
  C2, as the code has it. Take two events that may call \<^verbatim>\<open>refresh\<close> (the action, a tick, or for
  the first of the two \<^verbatim>\<open>init\<close> or \<^verbatim>\<open>configUpdated\<close>), the second reading a clock less than
  60000 ms after the first, with any events between them that do not run \<^verbatim>\<open>init_vars\<close>: no
  \<^verbatim>\<open>init\<close>, \<^verbatim>\<open>configUpdated\<close> or \<^verbatim>\<open>destroy\<close>, and no completion of a poll with a status other
  than 200 and no error envelope. Together the two issue at most one weather request.
  \<^verbatim>\<open>refresh\<close> issues a request exactly when the latch is off, \<open>lastPolled + 60000\<close> is at most
  the clock and the client exists; it sets \<open>lastPolled\<close> to the clock in the same call, and a
  completion that does not run \<^verbatim>\<open>init_vars\<close> leaves \<open>lastPolled\<close> as it is.
\<close>

theorem refresh_guard:
  assumes c1: "clock e1 = Some t1" and c2: "clock e2 = Some t2"
    and q2: "\<not> runs_init_vars e2" and quiet: "\<forall>e \<in> set evs. \<not> runs_init_vars e"
    and near: "t2 < t1 + 60000"
  shows "issued c st e1 + issued c (run c (step c st e1) evs) e2 \<le> 1 \<and>
         issued c st (RefreshAction t1) =
           (if \<not> hasError st \<and> lastPolled st + 60000 \<le> t1 \<and> client st \<noteq> None then 1 else 0) \<and>
         (\<not> hasError st \<and> lastPolled st + 60000 \<le> t1
            \<longrightarrow> lastPolled (step c st (RefreshAction t1)) = t1) \<and>
         (\<not> unexpected data code
            \<longrightarrow> lastPolled (step c st (WeatherResponse data code)) = lastPolled st)"
proof -
  let ?s1 = "step c st e1"
  let ?s2 = "run c ?s1 evs"
  have "issued c st e1 + issued c ?s2 e2 \<le> 1"
  proof (cases "issued c st e1 = 0")
    case True
    with issued_bounds [of c ?s2 e2] show ?thesis by simp
  next
    case False
    then have "fetches WeatherPoll (emitted ?s1) \<noteq> fetches WeatherPoll (emitted st)"
      by (simp add: issued_zero)
    from step_issue_time [OF c1 this] have "lastPolled ?s1 = t1" .
    with run_quiet(1) [OF quiet, of ?s1 c] have "t1 \<le> lastPolled ?s2" by simp
    with near have "t2 < lastPolled ?s2 + 60000" by simp
    from step_guarded [OF c2 q2 this] have "issued c ?s2 e2 = 0"
      by (simp add: issued_zero)
    with issued_bounds [of c st e1] show ?thesis by simp
  qed
  then show ?thesis
    by (simp add: issued_refresh refresh_schedule weather_response_schedule)
qed

theorem refresh_guard_witness:
  "issued sample_constants sample_started (RefreshAction 1700000060000) = 1 \<and>
   issued sample_constants
     (run sample_constants (step sample_constants sample_started (RefreshAction 1700000060000))
        [WeatherResponse (sample_document 300.15 180) 200, Tick 1700000090000])
     (RefreshAction 1700000119999) = 0"
proof -
  have quiet: "\<forall>e \<in> set [WeatherResponse (sample_document 300.15 180) 200, Tick 1700000090000].
                 \<not> runs_init_vars e"
    by (simp add: sample_facts)
  have first: "issued sample_constants sample_started (RefreshAction 1700000060000) = 1"
    by (simp add: issued_refresh sample_started_eq)
  from refresh_guard [of "RefreshAction 1700000060000" 1700000060000
         "RefreshAction 1700000119999" 1700000119999, OF _ _ _ quiet,
         of sample_constants sample_started] first
  show ?thesis by simp
qed

text \<open>
  The claim as the specification states it fails, with no \<^verbatim>\<open>init\<close> and no \<^verbatim>\<open>configUpdated\<close>
  between the two calls: the refresh action of the sample instance issues a poll, the poll
  completes with status 401 and no error envelope, which sets \<open>lastPolled\<close> to 0, and the
  refresh action one second after the first issues a second poll.
\<close>

theorem refresh_guard_counterexample:
  "issued sample_constants sample_started (RefreshAction 1700000060000) = 1 \<and>
   (1700000061000::int) < 1700000060000 + 60000 \<and>
   issued sample_constants
     (run sample_constants (step sample_constants sample_started (RefreshAction 1700000060000))
        [WeatherResponse sample_refusal 401])
     (RefreshAction 1700000061000) = 1"
proof -
  define s1 where "s1 = step sample_constants sample_started (RefreshAction 1700000060000)"
  define s2 where "s2 = step sample_constants s1 (WeatherResponse sample_refusal 401)"
  have f1: "issued sample_constants sample_started (RefreshAction 1700000060000) = 1"
    by (simp add: issued_refresh sample_started_eq)
  have cl1: "client s1 = Some True"
    by (simp add: s1_def refresh_frame sample_started_eq)
  from weather_response_unexpected [OF sample_facts(3), of sample_constants s1] cl1
  have "\<not> hasError s2" "lastPolled s2 = 0" "client s2 = Some True"
    by (auto simp: s2_def)
  then have "issued sample_constants s2 (RefreshAction 1700000061000) = 1"
    by (simp add: issued_refresh)
  with f1 show ?thesis
    by (simp add: run_Cons s2_def s1_def del: step.simps)
qed

section \<open>The latch\<close>

text \<open>
  C3, as the code has it. The completion of a poll with an error envelope sets the latch. From
  then on, through any events that do not run \<^verbatim>\<open>init_vars\<close> (ticks, the refresh action, the
  completions with an error envelope or with status 200), the latch stays set and no weather
  request is issued. \<^verbatim>\<open>configUpdated\<close> with a configuration that holds an API key, at a clock
  of 60000 or more, clears the latch and issues a request.
\<close>

theorem latch_holds_until_configUpdated:
  assumes env: "js_get data ''error'' = Inr err" "truthy err"
    and quiet: "\<forall>e \<in> set evs. \<not> runs_init_vars e"
    and key: "cfg_apikey cfg = Some k" "k \<noteq> []" and now: "60000 \<le> now"
  shows "hasError (step c st (WeatherResponse data code)) \<and>
         hasError (run c (step c st (WeatherResponse data code)) evs) \<and>
         fetches WeatherPoll (emitted (run c (step c st (WeatherResponse data code)) evs)) =
           fetches WeatherPoll (emitted (step c st (WeatherResponse data code))) \<and>
         issued c (run c (step c st (WeatherResponse data code)) evs) (ConfigUpdated cfg now) = 1 \<and>
         \<not> hasError (step c (run c (step c st (WeatherResponse data code)) evs)
                       (ConfigUpdated cfg now))"
proof -
  let ?s1 = "step c st (WeatherResponse data code)"
  from weather_response_envelope [OF env, of c st code] have l: "hasError ?s1" by auto
  from key have "key_ok cfg" by (simp add: key_ok_def)
  with l run_quiet(2,3) [OF quiet, of ?s1 c] now show ?thesis
    by (simp add: issued_configUpdated configUpdated_schedule)
qed

theorem latch_holds_until_configUpdated_witness:
  "hasError sample_latched \<and>
   fetches WeatherPoll (emitted (run sample_constants sample_latched
      [Tick 1700000060000, RefreshAction 1700000090000, Tick 1700001260000])) =
     fetches WeatherPoll (emitted sample_latched) \<and>
   issued sample_constants (run sample_constants sample_latched
      [Tick 1700000060000, RefreshAction 1700000090000, Tick 1700001260000])
      (ConfigUpdated sample_config 1700001270000) = 1"
proof -
  have quiet: "\<forall>e \<in> set [Tick 1700000060000, RefreshAction 1700000090000, Tick 1700001260000].
                 \<not> runs_init_vars e"
    by simp
  have key: "cfg_apikey sample_config = Some ''0123abcd''" "''0123abcd'' \<noteq> []"
    by (simp_all add: sample_config_def)
  from latch_holds_until_configUpdated [OF sample_facts(5) _ quiet key,
         of 1700001270000 sample_constants sample_started 200]
  show ?thesis by (simp add: sample_latched_def)
qed

text \<open>
  The claim as the specification states it fails twice. Before any reconfiguration: two polls
  of the sample instance are in flight, the first completes with an error envelope and sets the
  latch, the second completes with status 401 and no error envelope, which clears the latch and
  sets \<open>lastPolled\<close> to 0, and the next tick issues a poll. After \<^verbatim>\<open>configUpdated\<close>: with a
  configuration that holds no API key, \<^verbatim>\<open>configUpdated\<close> on the latched instance issues no
  poll.
\<close>

theorem latch_released_counterexample:
  "hasError (run sample_constants sample_started
      [RefreshAction 1700000060000, WeatherResponse sample_envelope 200]) \<and>
   issued sample_constants
     (run sample_constants sample_started
        [RefreshAction 1700000060000, WeatherResponse sample_envelope 200,
         WeatherResponse sample_refusal 401])
     (Tick 1700000120000) = 1 \<and>
   hasError sample_latched \<and>
   issued sample_constants sample_latched
     (ConfigUpdated (sample_config\<lparr>cfg_apikey := None\<rparr>) 1700000120000) = 0"
proof -
  define s1 where "s1 = step sample_constants sample_started (RefreshAction 1700000060000)"
  define s2 where "s2 = step sample_constants s1 (WeatherResponse sample_envelope 200)"
  define s3 where "s3 = step sample_constants s2 (WeatherResponse sample_refusal 401)"
  have f1: "client s1 = Some True" "heartbeat s1" "config s1 = sample_config"
    by (simp_all add: s1_def refresh_frame sample_started_eq)
  from weather_response_envelope [OF sample_facts(5), of sample_constants s1 200] f1
  have f2: "hasError s2" "client s2 = Some True" "heartbeat s2" "config s2 = sample_config"
    by (auto simp: s2_def)
  from weather_response_unexpected [OF sample_facts(3), of sample_constants s2] f2
  have f3: "\<not> hasError s3" "lastPolled s3 = 0" "client s3 = Some True" "heartbeat s3"
    "update s3 = 1200000"
    by (auto simp: s3_def sample_config_def)
  then have t: "issued sample_constants s3 (Tick 1700000120000) = 1"
    by (simp add: issued_tick)
  have k: "issued sample_constants sample_latched
     (ConfigUpdated (sample_config\<lparr>cfg_apikey := None\<rparr>) 1700000120000) = 0"
    by (simp add: issued_configUpdated key_ok_def)
  from f2(1) t k sample_latched_fields(1) show ?thesis
    by (simp add: run_Cons s3_def s2_def s1_def del: step.simps)
qed

text \<open>
  C4, as the code has it. The completion of a poll with status 200 and no error envelope
  leaves the latch as it was. An event that does not run \<^verbatim>\<open>init_vars\<close> never clears a latch
  that is set, and every event that runs it (\<^verbatim>\<open>init\<close>, \<^verbatim>\<open>configUpdated\<close>, \<^verbatim>\<open>destroy\<close>, the
  completion with another status and no error envelope) clears it.
\<close>

theorem latch_cleared_by_init_vars_only:
  "(js_get data ''error'' = Inr err \<and> \<not> truthy err
      \<longrightarrow> hasError (step c st (WeatherResponse data 200)) = hasError st) \<and>
   (\<not> runs_init_vars e \<and> hasError st \<longrightarrow> hasError (step c st e)) \<and>
   (runs_init_vars e' \<longrightarrow> \<not> hasError (step c st e'))"
proof (intro conjI impI)
  assume a: "js_get data ''error'' = Inr err \<and> \<not> truthy err"
  let ?st = "emit (UpdateStatus StatusOk (JStr ''Connected'')) st"
  have "keeps ?st (settle (update_variables c ?st data))"
    by (rule update_variables_keeps)
  with a show "hasError (step c st (WeatherResponse data 200)) = hasError st"
    by (simp add: weather_response_ok keeps_def)
next
  assume "\<not> runs_init_vars e \<and> hasError st"
  with step_quiet(2) [of e st c] show "hasError (step c st e)" by simp
next
  assume "runs_init_vars e'"
  then show "\<not> hasError (step c st e')" by (rule step_runs_init_vars)
qed

theorem latch_cleared_by_init_vars_only_witness:
  "hasError sample_latched \<and>
   hasError (step sample_constants sample_latched (WeatherResponse (sample_document 300.15 180) 200)) \<and>
   hasError (step sample_constants sample_latched (Tick 1700001260000)) \<and>
   \<not> hasError (step sample_constants sample_latched (WeatherResponse sample_refusal 401))"
  using latch_cleared_by_init_vars_only [of "sample_document 300.15 180" JUndef sample_constants
          sample_latched "Tick 1700001260000" "WeatherResponse sample_refusal 401"]
  by (simp add: sample_facts sample_latched_fields)

text \<open>
  The claim as the specification states it fails: the first poll of the sample instance is in
  flight, the refresh action issues a second one a minute later, the first completes with an
  error envelope and the second with status 200 and current weather; the latch is still set.
\<close>

theorem success_clears_latch_counterexample:
  "issued sample_constants sample_started (RefreshAction 1700000060000) = 1 \<and>
   js_get (sample_document 300.15 180) ''error'' = Inr JUndef \<and>
   hasError (run sample_constants sample_started
      [RefreshAction 1700000060000, WeatherResponse sample_envelope 200,
       WeatherResponse (sample_document 300.15 180) 200])"
proof -
  let ?s1 = "step sample_constants sample_started (RefreshAction 1700000060000)"
  let ?s2 = "step sample_constants ?s1 (WeatherResponse sample_envelope 200)"
  have "hasError ?s2"
    using weather_response_envelope [OF sample_facts(5), of sample_constants ?s1 200]
    by auto
  then have "hasError (step sample_constants ?s2 (WeatherResponse (sample_document 300.15 180) 200))"
    using step_quiet(2) [of "WeatherResponse (sample_document 300.15 180) 200" ?s2 sample_constants]
    by (simp add: sample_facts)
  moreover have "issued sample_constants sample_started (RefreshAction 1700000060000) = 1"
    by (simp add: issued_refresh sample_started_eq)
  ultimately show ?thesis
    by (simp add: run_Cons sample_facts)
qed

section \<open>The unexpected response\<close>

text \<open>
  C10. After the completion of a poll with a status other than 200 and no error envelope the
  latch is off, \<open>lastPolled\<close> is 0, the icon cache is empty and no icon is active. The refresh
  action then issues a request at any clock of 60000 or more, and so does a tick whose clock
  is also at least the refresh interval, as long as the client and the timer exist.
\<close>

theorem unexpected_response_resets:
  assumes "js_get data ''error'' = Inr err" and "\<not> truthy err" and "code \<noteq> 200"
  shows "\<not> hasError (step c st (WeatherResponse data code)) \<and>
         lastPolled (step c st (WeatherResponse data code)) = 0 \<and>
         icons (step c st (WeatherResponse data code)) = [] \<and>
         iconID (step c st (WeatherResponse data code)) = [] \<and>
         (60000 \<le> now \<and> client st \<noteq> None
            \<longrightarrow> issued c (step c st (WeatherResponse data code)) (RefreshAction now) = 1) \<and>
         (60000 \<le> now \<and> cfg_refresh (config st) * 60000 \<le> now \<and> heartbeat st
            \<and> client st \<noteq> None
            \<longrightarrow> issued c (step c st (WeatherResponse data code)) (Tick now) = 1)"
proof -
  from assms have "unexpected data code" by (simp add: unexpected_def)
  from weather_response_unexpected [OF this, of c st] show ?thesis
    by (auto simp: issued_refresh issued_tick)
qed

theorem unexpected_response_resets_witness:
  "hasError sample_latched \<and> lastPolled sample_latched = 1700000000000 \<and>
   \<not> hasError (step sample_constants sample_latched (WeatherResponse sample_refusal 401)) \<and>
   lastPolled (step sample_constants sample_latched (WeatherResponse sample_refusal 401)) = 0 \<and>
   issued sample_constants
     (step sample_constants sample_latched (WeatherResponse sample_refusal 401))
     (RefreshAction 1700000001000) = 1 \<and>
   issued sample_constants
     (step sample_constants sample_latched (WeatherResponse sample_refusal 401))
     (Tick 1700000001000) = 1"
  using unexpected_response_resets [OF sample_facts(7), where code = 401
          and now = 1700000001000 and st = sample_latched and c = sample_constants]
  by (simp add: sample_latched_fields sample_config_def)

section \<open>Icons\<close>

lemma update_graphic_active:
  assumes "icon_code cond = Inr (JStr X)" and "iconID st = X"
  shows "update_graphic st cond = Inr st"
  using assms by (simp add: update_graphic_def icon_code_def)

lemma update_graphic_new:
  assumes "icon_code cond = Inr (JStr X)" and "X \<noteq> iconID st" and "client st \<noteq> None"
  shows "update_graphic st cond =
           Inr (emit (if cached st X then CheckFeedbacks ''icon''
                      else HttpGet IconFetch (icon_url X)) (st\<lparr>iconID := X\<rparr>))"
  using assms
  by (auto simp: update_graphic_def icon_code_def cached_def Let_def emit_def
           split: option.splits)

subsection \<open>A refresh that reports the active code\<close>

lemma map_variable_active:
  assumes w: "js_get data ''weather'' = Inr w" and code: "icon_code w = Inr (JStr X)"
    and act: "iconID st = X"
  shows "same_icons st (outcome (map_variable st data dt tzl i spec dv))"
proof (cases "lookup_p data (section_of spec) (data_of spec)")
  case (Inl e)
  then show ?thesis by (simp add: map_variable_def same_icons_def)
next
  case (Inr p)
  have wk: "same_icons st (outcome (case thenE (js_get data ''weather'') (\<lambda>w.
                     thenE (js_first w) (\<lambda>w0.
                     thenE (js_get w0 f) (\<lambda>v. Inr (v, w)))) of
                  Inl e \<Rightarrow> Inl (e, st)
                | Inr (v, w) \<Rightarrow>
                    (case update_graphic st w of
                       Inl e \<Rightarrow> Inl e
                     | Inr st1 \<Rightarrow> Inr (st1, Some v))))" for f
    using update_graphic_active [OF code act]
    by (auto simp: w same_icons_def thenE_Inr split: sum.splits)
  have dk: "same_icons st (outcome (case is_day data dt of
                     Inl e \<Rightarrow> Inl (e, st)
                   | Inr b \<Rightarrow> Inr (st\<lparr>isDay := b\<rparr>, Some b)))"
    by (auto split: sum.splits simp: same_icons_def)
  have rf: "same_icons st st" by (simp add: same_icons_def)
  show ?thesis
    unfolding map_variable_def Let_def Inr sum.case
    by (simp add: outcome_lift returns_in_thenE wk dk rf)
qed

lemma map_variables_active:
  assumes w: "js_get data ''weather'' = Inr w" and code: "icon_code w = Inr (JStr X)"
  shows "iconID st = X \<Longrightarrow> same_icons st (outcome (map_variables data dt tzl vl st dv vars))"
proof (induction vl arbitrary: st dv vars)
  case Nil
  show ?case by (simp add: map_variables.simps same_icons_def)
next
  case (Cons a vl)
  obtain i spec where a: "a = (i, spec)" by (cases a)
  have k: "same_icons st (outcome (map_variable st data dt tzl i spec dv))"
    by (rule map_variable_active [OF w code Cons.prems])
  show ?case
  proof (cases "map_variable st data dt tzl i spec dv")
    case (Inl b)
    with k show ?thesis by (cases b) (simp add: a loop_eval)
  next
    case (Inr b)
    obtain s1 r where b: "b = (s1, r)" by (cases b)
    from k Inr b have k1: "same_icons st s1" by simp
    with Cons.prems have x: "iconID s1 = X" by (simp add: same_icons_def)
    show ?thesis
    proof (cases r)
      case None
      with Inr b a k1 Cons.IH [OF x, of dv vars] show ?thesis
        by (auto simp: loop_eval same_icons_def)
    next
      case (Some dv1)
      with Inr b a k1 Cons.IH [OF x, of dv1 "AList.update i dv1 vars"] show ?thesis
        by (auto simp: loop_eval same_icons_def)
    qed
  qed
qed

lemma update_variables_active:
  assumes w: "js_get data ''weather'' = Inr w" and code: "icon_code w = Inr (JStr X)"
    and act: "iconID st = X"
  shows "same_icons st (settle (update_variables c st data))"
proof (cases "js_get data ''dt''")
  case (Inl e)
  then show ?thesis
    using update_variables_fails [of data e c st] by (auto simp: same_icons_def)
next
  case dt: (Inr dt)
  show ?thesis
  proof (cases "js_get data ''timezone''")
    case (Inl e)
    then show ?thesis
      using update_variables_fails [of data e c st] by (auto simp: same_icons_def)
  next
    case (Inr tz0)
    define st2 where "st2 = st\<lparr>tz := tz0, weather := data\<rparr>"
    define tzl where "tzl = effective_offset c (cfg_tz (config st)) tz0"
    have k2: "same_icons st st2" and x: "iconID st2 = X"
      using act by (simp_all add: st2_def same_icons_def)
    have k3: "same_icons st2 (outcome (map_variables data dt tzl (VARIABLE_LIST c) st2 (JStr []) []))"
      by (rule map_variables_active [OF w code x])
    note eq = update_variables_loop [OF dt Inr, of c st, folded st2_def tzl_def]
    show ?thesis
    proof (cases "map_variables data dt tzl (VARIABLE_LIST c) st2 (JStr []) []")
      case (Inl y)
      with k3 k2 show ?thesis
        by (cases y) (auto simp: eq same_icons_def)
    next
      case (Inr y)
      obtain s3 dv vars where y: "y = (s3, dv, vars)" by (cases y)
      with k3 k2 Inr show ?thesis
        by (auto simp: eq same_icons_def)
    qed
  qed
qed

lemma refresh_reports_active:
  assumes ok: "js_get data ''error'' = Inr err" "\<not> truthy err"
    and w: "js_get data ''weather'' = Inr w" and rep: "icon_code w = Inr (JStr X)"
    and act: "iconID s = X"
  shows "same_icons s (step c s (WeatherResponse data 200))"
proof -
  let ?s2 = "emit (UpdateStatus StatusOk (JStr ''Connected'')) s"
  from act have "iconID ?s2 = X" by simp
  from update_variables_active [OF w rep this, of c] ok show ?thesis
    by (simp add: same_icons_def weather_response_ok)
qed

text \<open>
  C5. When the icon update is triggered twice in succession with the code \<open>X\<close>, the first
  call makes \<open>X\<close> the active code at once and the second call does nothing. If \<open>X\<close> was
  neither active nor cached, the two calls issue exactly one request, for the icon of \<open>X\<close>;
  in no case do they issue more than one. Nor does a poll that completes after the first
  call with status 200 and the same conditions issue another.
\<close>

theorem icon_fetch_not_duplicated:
  assumes code: "icon_code cond = Inr (JStr X)" and cl: "client st \<noteq> None"
  shows "\<exists>s1. update_graphic st cond = Inr s1 \<and> iconID s1 = X \<and>
              update_graphic s1 cond = Inr s1 \<and>
              (X \<noteq> iconID st \<and> \<not> cached st X
                 \<longrightarrow> emitted s1 = emitted st @ [HttpGet IconFetch (icon_url X)]) \<and>
              fetches IconFetch (emitted s1) \<le> fetches IconFetch (emitted st) + 1 \<and>
              (js_get data ''error'' = Inr err \<and> \<not> truthy err \<and> js_get data ''weather'' = Inr cond
                 \<longrightarrow> fetches IconFetch (emitted (step c s1 (WeatherResponse data 200))) =
                       fetches IconFetch (emitted s1))"
proof (cases "X = iconID st")
  case True
  with update_graphic_active [OF code] refresh_reports_active [OF _ _ _ code, of data err st c]
  show ?thesis by (auto simp: same_icons_def)
next
  case False
  let ?s1 = "emit (if cached st X then CheckFeedbacks ''icon''
                   else HttpGet IconFetch (icon_url X)) (st\<lparr>iconID := X\<rparr>)"
  have 1: "update_graphic st cond = Inr ?s1"
    by (rule update_graphic_new [OF code False cl])
  have 2: "update_graphic ?s1 cond = Inr ?s1"
    by (rule update_graphic_active [OF code]) simp
  have 3: "fetches IconFetch (emitted (step c ?s1 (WeatherResponse data 200))) =
             fetches IconFetch (emitted ?s1)"
    if "js_get data ''error'' = Inr err" "\<not> truthy err" "js_get data ''weather'' = Inr cond"
    using refresh_reports_active [OF that code, of ?s1 c] by (simp add: same_icons_def)
  from 1 2 3 show ?thesis by (intro exI [of _ ?s1]) (simp del: step.simps)
qed

lemma sample_condition:
  "js_get (sample_document k d) ''weather'' =
     Inr (JArr [JObj [(''main'', JStr ''Clear''), (''icon'', JStr ''01d'')]])"
  "icon_code (JArr [JObj [(''main'', JStr ''Clear''), (''icon'', JStr ''01d'')]]) =
     Inr (JStr ''01d'')"
  by (simp_all add: sample_document_def icon_code_def)

theorem icon_fetch_not_duplicated_witness:
  "\<exists>s1. update_graphic sample_started
           (JArr [JObj [(''main'', JStr ''Clear''), (''icon'', JStr ''01d'')]]) = Inr s1 \<and>
         update_graphic s1
           (JArr [JObj [(''main'', JStr ''Clear''), (''icon'', JStr ''01d'')]]) = Inr s1 \<and>
         emitted s1 = emitted sample_started @ [HttpGet IconFetch (icon_url ''01d'')] \<and>
         fetches IconFetch (emitted (step sample_constants s1
            (WeatherResponse (sample_document 300.15 180) 200))) =
           fetches IconFetch (emitted s1)"
proof -
  let ?cond = "JArr [JObj [(''main'', JStr ''Clear''), (''icon'', JStr ''01d'')]]"
  have cl: "client sample_started \<noteq> None"
    and fresh: "''01d'' \<noteq> iconID sample_started" "\<not> cached sample_started ''01d''"
    by (simp_all add: sample_started_eq cached_def)
  have doc: "js_get (sample_document 300.15 180) ''error'' = Inr JUndef"
    "\<not> truthy JUndef" "js_get (sample_document 300.15 180) ''weather'' = Inr ?cond"
    by (simp_all add: sample_facts sample_condition)
  from icon_fetch_not_duplicated [OF sample_condition(2) cl,
         where data = "sample_document 300.15 180" and err = JUndef and c = sample_constants]
  obtain s1 where
    "update_graphic sample_started ?cond = Inr s1" "update_graphic s1 ?cond = Inr s1"
    "''01d'' \<noteq> iconID sample_started \<and> \<not> cached sample_started ''01d''
       \<longrightarrow> emitted s1 = emitted sample_started @ [HttpGet IconFetch (icon_url ''01d'')]"
    "js_get (sample_document 300.15 180) ''error'' = Inr JUndef \<and> \<not> truthy JUndef \<and>
     js_get (sample_document 300.15 180) ''weather'' = Inr ?cond
       \<longrightarrow> fetches IconFetch (emitted (step sample_constants s1
               (WeatherResponse (sample_document 300.15 180) 200))) =
             fetches IconFetch (emitted s1)"
    by blast
  with fresh doc show ?thesis
    by (intro exI [of _ s1]) blast
qed

text \<open>
  C6, as the code has it. A failed icon request for \<open>X\<close> (a status other than 200, a body the
  image library rejects, or a transport error) caches nothing and leaves \<open>X\<close> the active
  code; a poll that then completes with status 200 and reports \<open>X\<close> again issues no icon
  request.
\<close>

theorem failed_icon_not_retried:
  assumes fail: "ev = IconResponse X code png \<and> (code \<noteq> 200 \<or> png = None) \<or> ev = IconError emsg"
    and act: "iconID st = X"
    and ok: "js_get data ''error'' = Inr err" "\<not> truthy err"
    and w: "js_get data ''weather'' = Inr w" and rep: "icon_code w = Inr (JStr X)"
  shows "icons (step c st ev) = icons st \<and> iconID (step c st ev) = X \<and>
         fetches IconFetch (emitted (step c (step c st ev) (WeatherResponse data 200))) =
           fetches IconFetch (emitted (step c st ev))"
proof -
  let ?s1 = "step c st ev"
  from fail act have s1: "icons ?s1 = icons st" "iconID ?s1 = X"
    by (auto simp: icon_response_def request_error_def)
  from refresh_reports_active [OF ok w rep s1(2), of c] s1 show ?thesis
    by (simp add: same_icons_def del: step.simps)
qed

lemma sample_first_icon:
  "iconID (step sample_constants sample_started
             (WeatherResponse (sample_document 300.15 180) 200)) = ''01d'' \<and>
   icons (step sample_constants sample_started
             (WeatherResponse (sample_document 300.15 180) 200)) = [] \<and>
   fetches IconFetch (emitted (step sample_constants sample_started
             (WeatherResponse (sample_document 300.15 180) 200))) = 1"
  by (simp add: sample_started_eq weather_response_def op_defs lift_def get2_def lookup_p_def
        last_char_def num_string_def int_string_def C_DEGREE_def kelvinToUnit_def is_day_def
        shifted_def windir_def windir_index_def js_rem_def js_trunc_def C_WINDIR_def
        loop_eval sample_defs sample_times sample_clock Let_def)

theorem failed_icon_not_retried_witness:
  "fetches IconFetch (emitted (step sample_constants sample_started
      (WeatherResponse (sample_document 300.15 180) 200))) = 1 \<and>
   icons (run sample_constants sample_started
      [WeatherResponse (sample_document 300.15 180) 200, IconResponse ''01d'' 404 None]) = [] \<and>
   fetches IconFetch (emitted (run sample_constants sample_started
      [WeatherResponse (sample_document 300.15 180) 200, IconResponse ''01d'' 404 None,
       WeatherResponse (sample_document 300.15 180) 200])) = 1"
proof -
  let ?s1 = "step sample_constants sample_started
               (WeatherResponse (sample_document 300.15 180) 200)"
  from sample_first_icon have f: "iconID ?s1 = ''01d''" "icons ?s1 = []"
    "fetches IconFetch (emitted ?s1) = 1"
    by blast+
  from failed_icon_not_retried [where ev = "IconResponse ''01d'' 404 None" and X = "''01d''"
         and code = 404 and png = None and st = ?s1 and data = "sample_document 300.15 180"
         and err = JUndef and c = sample_constants
         and w = "JArr [JObj [(''main'', JStr ''Clear''), (''icon'', JStr ''01d'')]]"] f
  show ?thesis
    by (simp add: run_Cons icon_response_def sample_facts sample_condition)
qed

text \<open>
  The claim as the specification states it fails: the first completion requests the icon
  \<open>01d\<close>, the request fails with status 404, and the next completion, which reports \<open>01d\<close>
  again, issues no second icon request although no bitmap is cached.
\<close>

theorem failed_icon_retried_counterexample:
  "\<not> cached (run sample_constants sample_started
        [WeatherResponse (sample_document 300.15 180) 200, IconResponse ''01d'' 404 None]) ''01d'' \<and>
   fetches IconFetch (emitted (run sample_constants sample_started
      [WeatherResponse (sample_document 300.15 180) 200, IconResponse ''01d'' 404 None,
       WeatherResponse (sample_document 300.15 180) 200])) =
   fetches IconFetch (emitted (run sample_constants sample_started
      [WeatherResponse (sample_document 300.15 180) 200, IconResponse ''01d'' 404 None]))"
proof -
  let ?s1 = "step sample_constants sample_started
               (WeatherResponse (sample_document 300.15 180) 200)"
  from sample_first_icon have f: "iconID ?s1 = ''01d''" "icons ?s1 = []"
    by blast+
  let ?s2 = "emit (UpdateStatus StatusOk (JStr ''Connected'')) ?s1"
  from f have "iconID ?s2 = ''01d''" by simp
  from update_variables_active [OF sample_condition(1) [of "300.15" 180] sample_condition(2) this,
         of sample_constants]
  have "fetches IconFetch (emitted (settle (update_variables sample_constants ?s2
          (sample_document 300.15 180)))) = fetches IconFetch (emitted ?s1)"
    by (simp add: same_icons_def)
  with f show ?thesis
    by (simp add: run_Cons icon_response_def cached_def weather_response_ok [OF sample_facts(6)])
qed

section \<open>The offset of the wall clock\<close>

lemma update_graphic_offset:
  "update_graphic st cond = Inl (e, s1) \<Longrightarrow> same_offset st s1"
  "update_graphic st cond = Inr s1 \<Longrightarrow> same_offset st s1"
  by (auto simp: update_graphic_def same_offset_def Let_def
           split: sum.splits json.splits if_splits option.splits)

lemma map_variable_offset: "same_offset st (outcome (map_variable st data dt tzl i spec dv))"
proof (cases "lookup_p data (section_of spec) (data_of spec)")
  case (Inl e)
  then show ?thesis by (simp add: map_variable_def same_offset_def)
next
  case (Inr p)
  have wk: "same_offset st (outcome (case thenE (js_get data ''weather'') (\<lambda>w.
                     thenE (js_first w) (\<lambda>w0.
                     thenE (js_get w0 f) (\<lambda>v. Inr (v, w)))) of
                  Inl e \<Rightarrow> Inl (e, st)
                | Inr (v, w) \<Rightarrow>
                    (case update_graphic st w of
                       Inl e \<Rightarrow> Inl e
                     | Inr st1 \<Rightarrow> Inr (st1, Some v))))" for f
    by (auto split: sum.splits dest: update_graphic_offset simp: same_offset_def)
  have dk: "same_offset st (outcome (case is_day data dt of
                     Inl e \<Rightarrow> Inl (e, st)
                   | Inr b \<Rightarrow> Inr (st\<lparr>isDay := b\<rparr>, Some b)))"
    by (auto split: sum.splits simp: same_offset_def)
  have rf: "same_offset st st" by (simp add: same_offset_def)
  show ?thesis
    unfolding map_variable_def Let_def Inr sum.case
    by (simp add: outcome_lift returns_in_thenE wk dk rf)
qed

lemma map_variables_offset:
  "same_offset st (outcome (map_variables data dt tzl vl st dv vars))"
proof (induction vl arbitrary: st dv vars)
  case Nil
  show ?case by (simp add: map_variables.simps same_offset_def)
next
  case (Cons a vl)
  obtain i spec where a: "a = (i, spec)" by (cases a)
  have k: "same_offset st (outcome (map_variable st data dt tzl i spec dv))"
    by (rule map_variable_offset)
  show ?case
  proof (cases "map_variable st data dt tzl i spec dv")
    case (Inl b)
    with k show ?thesis by (cases b) (simp add: a loop_eval)
  next
    case (Inr b)
    obtain s1 r where b: "b = (s1, r)" by (cases b)
    from k Inr b have k1: "same_offset st s1" by simp
    show ?thesis
    proof (cases r)
      case None
      with Inr b a k1 Cons.IH [of s1 dv vars] show ?thesis
        by (auto simp: loop_eval same_offset_def)
    next
      case (Some dv1)
      with Inr b a k1 Cons.IH [of s1 dv1 "AList.update i dv1 vars"] show ?thesis
        by (auto simp: loop_eval same_offset_def)
    qed
  qed
qed

lemma update_variables_offset:
  assumes "update_variables c st data = Inr st'" and "js_get data ''timezone'' = Inr tz0"
  shows "tz st' = tz0"
proof -
  from assms(1) obtain dt where dt: "js_get data ''dt'' = Inr dt"
    using update_variables_fails [of data _ c st] by (cases "js_get data ''dt''") auto
  define st2 where "st2 = st\<lparr>tz := tz0, weather := data\<rparr>"
  define tzl where "tzl = effective_offset c (cfg_tz (config st)) tz0"
  note eq = update_variables_loop [OF dt assms(2), of c st, folded st2_def tzl_def]
  from assms(1) eq obtain s3 dv vars where
    loop: "map_variables data dt tzl (VARIABLE_LIST c) st2 (JStr []) [] = Inr (s3, dv, vars)"
    and st': "st' = emit (SetVariableValues vars) s3"
    by (cases "map_variables data dt tzl (VARIABLE_LIST c) st2 (JStr []) []") auto
  from map_variables_offset [of st2 data dt tzl "VARIABLE_LIST c" "JStr []" "[]"] loop
  have "tz s3 = tz0" by (simp add: same_offset_def st2_def)
  then show ?thesis by (simp add: st')
qed

lemma tick_publishes:
  assumes hb: "heartbeat st" and cl: "client st \<noteq> None"
    and off: "tz st = JNum off" and t: "setTime (of_int now + off * 1000) = Inr t"
  shows "\<exists>s1::ow_state. emitted (step c st (Tick now)) =
           emitted s1 @ [SetVariableValues [(''l_localtime'', JStr (toMMDD_HHMM t)),
                                            (''l_time'', JStr (toHHMM t))]]"
proof -
  from cl have "\<exists>s1. refresh c st now = Inr s1"
    by (auto simp: refresh_def Let_def split: option.splits)
  then obtain s1 where r: "refresh c st now = Inr s1" ..
  then have s1: "settle (refresh c st now) = s1" by simp
  have "tz s1 = JNum off"
    using refresh_frame(5) [of c st now] off by (simp add: s1)
  with t have "update_localtimes s1 now =
      Inr (emit (SetVariableValues [(''l_localtime'', JStr (toMMDD_HHMM t)),
                                    (''l_time'', JStr (toHHMM t))]) s1)"
    by (simp add: update_localtimes_def)
  moreover from off t have "update_localtimes st now =
      Inr (emit (SetVariableValues [(''l_localtime'', JStr (toMMDD_HHMM t)),
                                    (''l_time'', JStr (toHHMM t))]) st)"
    by (simp add: update_localtimes_def)
  ultimately show ?thesis
    using hb r by (auto simp: pulse_def Let_def)
qed

lemma tick_published:
  assumes hb: "heartbeat st" and cl: "client st \<noteq> None"
    and off: "tz st = JNum off" and t: "setTime (of_int now + off * 1000) = Inr t"
  shows "published (emitted (step c st (Tick now))) ''l_time'' = Some (JStr (toHHMM t))"
    and "published (emitted (step c st (Tick now))) ''l_localtime'' = Some (JStr (toMMDD_HHMM t))"
proof -
  from tick_publishes [OF assms, of c] obtain s1 :: ow_state where
    e: "emitted (step c st (Tick now)) =
           emitted s1 @ [SetVariableValues [(''l_localtime'', JStr (toMMDD_HHMM t)),
                                            (''l_time'', JStr (toHHMM t))]]"
    by blast
  show "published (emitted (step c st (Tick now))) ''l_time'' = Some (JStr (toHHMM t))"
    unfolding e by (simp add: published_snoc)
  show "published (emitted (step c st (Tick now))) ''l_localtime'' = Some (JStr (toMMDD_HHMM t))"
    unfolding e by (simp add: published_snoc)
qed

text \<open>
  C8, as the code has it. On a tick the two wall-clock variables are recomputed from the
  clock and the offset \<^verbatim>\<open>this.tz\<close>, whatever the configured mode: \<^verbatim>\<open>this.tz\<close> is 0 after
  \<^verbatim>\<open>init_vars\<close> and the \<^verbatim>\<open>timezone\<close> member of the document after the mapper has run. The mode
  selects the offset of \<^verbatim>\<open>c_time\<close>, \<^verbatim>\<open>c_sunrise\<close> and \<^verbatim>\<open>c_sunset\<close> only (the local variable \<^verbatim>\<open>tz\<close>
  of \<^verbatim>\<open>update_variables\<close>).
\<close>

theorem wall_clock_uses_document_offset:
  assumes hb: "heartbeat st" and cl: "client st \<noteq> None"
    and off: "tz st = JNum off" and t: "setTime (of_int now + off * 1000) = Inr t"
  shows "published (emitted (step c st (Tick now))) ''l_time'' = Some (JStr (toHHMM t)) \<and>
         published (emitted (step c st (Tick now))) ''l_localtime'' = Some (JStr (toMMDD_HHMM t)) \<and>
         tz (init_vars c st) = JNum 0 \<and>
         (update_variables c st data = Inr st' \<and> js_get data ''timezone'' = Inr tz0
            \<longrightarrow> tz st' = tz0)"
  using tick_published [OF assms, of c] update_variables_offset [of c st data st' tz0]
  by simp

lemma sample_mapped_fields:
  assumes "step sample_constants sample_started
             (WeatherResponse (sample_document 300.15 180) 200) = s"
  shows "heartbeat s" "client s = Some True" "tz s = JNum 3600" "config s = sample_config"
proof -
  let ?st = "emit (UpdateStatus StatusOk (JStr ''Connected'')) sample_started"
  obtain st' where run: "update_variables sample_constants ?st (sample_document 300.15 180) = Inr st'"
    and resp: "step sample_constants sample_started
                 (WeatherResponse (sample_document 300.15 180) 200) = st'"
    using sample_response by blast
  from update_variables_keeps [of ?st sample_constants "sample_document 300.15 180"] run
  have "keeps ?st st'" by simp
  then show "heartbeat s" "client s = Some True" "config s = sample_config"
    using assms resp by (simp_all add: keeps_def sample_started_eq)
  from update_variables_offset [OF run, of "JNum 3600"] assms resp
  show "tz s = JNum 3600" by (simp add: sample_document_def)
qed

lemma sample_utc: "toHHMM 1700000060000 = ''22:14''"
  by code_simp

theorem wall_clock_uses_document_offset_witness:
  "published (emitted (run sample_constants sample_started
      [WeatherResponse (sample_document 300.15 180) 200, Tick 1700000060000])) ''l_time'' =
     Some (JStr ''23:14'') \<and>
   published (emitted (run sample_constants sample_started
      [WeatherResponse (sample_document 300.15 180) 200, Tick 1700000060000])) ''l_localtime'' =
     Some (JStr ''11-14 23:14'')"
proof -
  define s where "s = step sample_constants sample_started
                        (WeatherResponse (sample_document 300.15 180) 200)"
  note f = sample_mapped_fields [OF s_def [symmetric]]
  have t: "setTime (of_int 1700000060000 + 3600 * 1000) = Inr 1700003660000"
    by (simp add: sample_times)
  have r: "run sample_constants sample_started
             [WeatherResponse (sample_document 300.15 180) 200, Tick 1700000060000] =
           step sample_constants s (Tick 1700000060000)"
    unfolding s_def by (simp only: run_Cons run_Nil)
  from wall_clock_uses_document_offset [OF f(1) _ f(3) t, of sample_constants] f(2)
  have "published (emitted (step sample_constants s (Tick 1700000060000))) ''l_time'' =
          Some (JStr (toHHMM 1700003660000)) \<and>
        published (emitted (step sample_constants s (Tick 1700000060000))) ''l_localtime'' =
          Some (JStr (toMMDD_HHMM 1700003660000))"
    by (simp del: step.simps)
  then show ?thesis
    unfolding r by (simp add: sample_clock del: step.simps)
qed

text \<open>
  The claim as the specification states it fails: the sample configuration has the mode
  \<open>u\<close> (UTC), the document gives the location the offset 3600, and the tick one minute after
  the poll publishes \<open>23:14\<close> for \<^verbatim>\<open>l_time\<close>, the time at the location, where the UTC clock reads
  \<open>22:14\<close>.
\<close>

theorem wall_clock_mode_counterexample:
  "cfg_tz sample_config = Some ''u'' \<and>
   toHHMM 1700000060000 = ''22:14'' \<and>
   published (emitted (run sample_constants sample_started
      [WeatherResponse (sample_document 300.15 180) 200, Tick 1700000060000])) ''l_time'' =
     Some (JStr ''23:14'')"
proof -
  define s where "s = step sample_constants sample_started
                        (WeatherResponse (sample_document 300.15 180) 200)"
  note f = sample_mapped_fields [OF s_def [symmetric]]
  have t: "setTime (of_int 1700000060000 + 3600 * 1000) = Inr 1700003660000"
    by (simp add: sample_times)
  have r: "run sample_constants sample_started
             [WeatherResponse (sample_document 300.15 180) 200, Tick 1700000060000] =
           step sample_constants s (Tick 1700000060000)"
    unfolding s_def by (simp only: run_Cons run_Nil)
  from tick_published(1) [OF f(1) _ f(3) t, of sample_constants] f(2)
  have "published (emitted (step sample_constants s (Tick 1700000060000))) ''l_time'' =
          Some (JStr ''23:14'')"
    by (simp add: sample_clock del: step.simps)
  then show ?thesis
    unfolding r by (simp add: sample_utc sample_config_def del: step.simps)
qed

section \<open>The values after an unexpected response\<close>

lemma published_snoc4:
  "published (xs @ [Log l m, UpdateStatus s m', SetVariableDefinitions ds, SetVariableValues vs]) =
     published xs ++ map_of vs"
proof -
  have "xs @ [Log l m, UpdateStatus s m', SetVariableDefinitions ds, SetVariableValues vs] =
        (((xs @ [Log l m]) @ [UpdateStatus s m']) @ [SetVariableDefinitions ds]) @
          [SetVariableValues vs]"
    by simp
  then show ?thesis
    by (simp only: published_snoc effect.case)
qed

lemma unexpected_effects:
  assumes "unexpected data code"
  shows "\<exists>msg. js_get data ''message'' = Inr msg \<and>
           emitted (step c st (WeatherResponse data code)) =
             emitted st @
               [Log ''error'' msg, UpdateStatus StatusUnknownError msg,
                SetVariableDefinitions (map (\<lambda>(i, s). (i, description_of s)) (VARIABLE_LIST c)),
                SetVariableValues [(''l_name'', msg)]] \<and>
           \<not> hasError (step c st (WeatherResponse data code)) \<and>
           weather (step c st (WeatherResponse data code)) =
             JObj [(''location'', JObj []), (''current'', JObj []), (''forecast'', JObj [])] \<and>
           tz (step c st (WeatherResponse data code)) = JNum 0 \<and>
           lastPolled (step c st (WeatherResponse data code)) = 0 \<and>
           icons (step c st (WeatherResponse data code)) = [] \<and>
           iconID (step c st (WeatherResponse data code)) = []"
  using weather_response_unexpected [OF assms, of c st] by auto

text \<open>
  C7, as the code has it. The completion of a poll with a status other than 200 and no error
  envelope logs the message, reports the status, runs \<^verbatim>\<open>init_vars\<close> (which resets the fields of
  the instance and declares the variables again) and sends one value, the message under
  \<^verbatim>\<open>l_name\<close>. It sends no value for any other variable: what the module has last sent for
  them stands. The latch is off afterwards.
\<close>

theorem unexpected_response_sends_name_only:
  assumes "js_get data ''error'' = Inr err" and "\<not> truthy err" and "code \<noteq> 200"
  shows "\<exists>msg. js_get data ''message'' = Inr msg \<and>
           emitted (step c st (WeatherResponse data code)) =
             emitted st @
               [Log ''error'' msg, UpdateStatus StatusUnknownError msg,
                SetVariableDefinitions (map (\<lambda>(i, s). (i, description_of s)) (VARIABLE_LIST c)),
                SetVariableValues [(''l_name'', msg)]] \<and>
           published (emitted (step c st (WeatherResponse data code))) ''l_name'' = Some msg \<and>
           (\<forall>i. i \<noteq> ''l_name'' \<longrightarrow>
              published (emitted (step c st (WeatherResponse data code))) i =
                published (emitted st) i) \<and>
           \<not> hasError (step c st (WeatherResponse data code)) \<and>
           weather (step c st (WeatherResponse data code)) =
             JObj [(''location'', JObj []), (''current'', JObj []), (''forecast'', JObj [])] \<and>
           tz (step c st (WeatherResponse data code)) = JNum 0 \<and>
           lastPolled (step c st (WeatherResponse data code)) = 0 \<and>
           icons (step c st (WeatherResponse data code)) = [] \<and>
           iconID (step c st (WeatherResponse data code)) = []"
proof -
  from assms have "unexpected data code" by (simp add: unexpected_def)
  from unexpected_effects [OF this, of c st] obtain msg where
    m: "js_get data ''message'' = Inr msg"
    and e: "emitted (step c st (WeatherResponse data code)) =
             emitted st @
               [Log ''error'' msg, UpdateStatus StatusUnknownError msg,
                SetVariableDefinitions (map (\<lambda>(i, s). (i, description_of s)) (VARIABLE_LIST c)),
                SetVariableValues [(''l_name'', msg)]]"
    and r: "\<not> hasError (step c st (WeatherResponse data code))"
      "weather (step c st (WeatherResponse data code)) =
             JObj [(''location'', JObj []), (''current'', JObj []), (''forecast'', JObj [])]"
      "tz (step c st (WeatherResponse data code)) = JNum 0"
      "lastPolled (step c st (WeatherResponse data code)) = 0"
      "icons (step c st (WeatherResponse data code)) = []"
      "iconID (step c st (WeatherResponse data code)) = []"
    by blast
  have p: "published (emitted (step c st (WeatherResponse data code))) =
             published (emitted st) ++ map_of [(''l_name'', msg)]"
    unfolding e by (rule published_snoc4)
  show ?thesis
    by (intro exI [of _ msg] conjI m e r) (simp_all add: p del: step.simps)
qed

lemma sample_published_temp:
  assumes "step sample_constants sample_started
             (WeatherResponse (sample_document 300.15 180) 200) = s"
  shows "published (emitted s) ''c_temp'' = Some (JStr [CHR ''8'', CHR ''1'', CHR 0xB0])"
proof -
  let ?st = "emit (UpdateStatus StatusOk (JStr ''Connected'')) sample_started"
  let ?doc = "sample_document 300.15 180"
  let ?spec = "\<lparr>description_of = ''Temperature'', section_of = ''local'', data_of = ''temp''\<rparr>"
  obtain st' where run: "update_variables sample_constants ?st ?doc = Inr st'"
    and resp: "step sample_constants sample_started (WeatherResponse ?doc 200) = st'"
    using sample_response by blast
  have mem: "(''c_temp'', ?spec) \<in> set (VARIABLE_LIST sample_constants)"
    by (simp add: sample_constants_def)
  have K: "get2 ?doc ''main'' (data_of ?spec) = Inr (JNum 300.15)"
    by (simp add: get2_def sample_document_def)
  have fl: "int_string \<lfloor>(((300.15::real) - 273.15) * 9) / 5 + 32.49\<rfloor> = ''81''"
    by (simp add: int_string_def nat_digits.simps)
  have "published (emitted st') ''c_temp'' = Some (JStr (''81'' @ C_DEGREE))"
  proof (rule update_variables_entry [OF run mem sample_table(1)])
    fix s' d s1 r dt tzl
    assume "mph s' = mph ?st" and "map_variable s' ?doc dt tzl ''c_temp'' ?spec d = Inr (s1, r)"
    with map_variable_local_temp [OF this(2) _ _ K] fl
    show "r = Some (JStr (''81'' @ C_DEGREE))"
      by (simp add: sample_started_eq)
  qed
  with assms resp show ?thesis by (simp add: C_DEGREE_def)
qed

theorem unexpected_response_sends_name_only_witness:
  "published (emitted (run sample_constants sample_started
      [WeatherResponse (sample_document 300.15 180) 200,
       WeatherResponse sample_refusal 401])) ''l_name'' = Some (JStr ''Invalid API key'') \<and>
   \<not> hasError (run sample_constants sample_started
      [WeatherResponse (sample_document 300.15 180) 200, WeatherResponse sample_refusal 401])"
proof -
  define s where "s = step sample_constants sample_started
                        (WeatherResponse (sample_document 300.15 180) 200)"
  have r: "run sample_constants sample_started
             [WeatherResponse (sample_document 300.15 180) 200,
              WeatherResponse sample_refusal 401] =
           step sample_constants s (WeatherResponse sample_refusal 401)"
    unfolding s_def by (simp only: run_Cons run_Nil)
  have m: "js_get sample_refusal ''message'' = Inr (JStr ''Invalid API key'')"
    by (simp add: sample_refusal_def)
  from unexpected_response_sends_name_only [OF sample_facts(7), of 401 sample_constants s] m
  show ?thesis
    unfolding r by (auto simp del: step.simps)
qed

text \<open>
  The claim as the specification states it fails: after a completion with current weather
  and then one with status 401, the value the module has last sent for \<^verbatim>\<open>c_temp\<close> is still
  \<open>81\<close> with the degree character; nothing has cleared it.
\<close>

theorem unexpected_response_clears_counterexample:
  "unexpected sample_refusal 401 \<and>
   published (emitted (run sample_constants sample_started
      [WeatherResponse (sample_document 300.15 180) 200,
       WeatherResponse sample_refusal 401])) ''c_temp'' =
     Some (JStr [CHR ''8'', CHR ''1'', CHR 0xB0])"
proof -
  define s where "s = step sample_constants sample_started
                        (WeatherResponse (sample_document 300.15 180) 200)"
  have r: "run sample_constants sample_started
             [WeatherResponse (sample_document 300.15 180) 200,
              WeatherResponse sample_refusal 401] =
           step sample_constants s (WeatherResponse sample_refusal 401)"
    unfolding s_def by (simp only: run_Cons run_Nil)
  from unexpected_effects [OF sample_facts(3), of sample_constants s] obtain msg where
    e: "emitted (step sample_constants s (WeatherResponse sample_refusal 401)) =
          emitted s @
            [Log ''error'' msg, UpdateStatus StatusUnknownError msg,
             SetVariableDefinitions
               (map (\<lambda>(i, s). (i, description_of s)) (VARIABLE_LIST sample_constants)),
             SetVariableValues [(''l_name'', msg)]]"
    by blast
  have "published (emitted (step sample_constants s (WeatherResponse sample_refusal 401)))
          ''c_temp'' = published (emitted s) ''c_temp''"
    unfolding e by (simp add: published_snoc4)
  with sample_published_temp [OF s_def [symmetric]] show ?thesis
    unfolding r by (simp add: sample_facts del: step.simps)
qed

end
